theory Spec2Isabelle
  imports Main "HOL-Library.Word" "HOL-Library.Char_ord" "HOL-Library.List_Lexorder"
begin

unbundle bit_operations_syntax

section \<open>Go values as the reflect package presents them\<close>

text \<open>
  The codec of polyjson walks Go values through package reflect.  A \<open>reflect.Type\<close> is
  modelled by \<open>gtype\<close>, the data behind a \<open>reflect.Value\<close> by \<open>gval\<close>, and a valid
  \<open>reflect.Value\<close> by a pair of the two; the zero \<open>reflect.Value\<close> (what
  \<open>reflect.ValueOf(nil)\<close> returns) is \<open>None\<close>.

  A struct field descriptor keeps what the code reads of a \<open>reflect.StructField\<close>: its
  \<open>Name\<close>, its \<open>PkgPath\<close> (empty exactly for exported fields), the result of
  \<open>Tag.Get("json")\<close> and its \<open>Type\<close>.  An interface type is given by the names of the
  methods it requires.  Kinds covered: bool, int (64 bit), string, pointer, interface, map,
  slice and struct.  A pointer owns its pointee (aliasing and cyclic data are not modelled).
  The entries of a map are listed in the order in which \<open>MapRange\<close> visits them.
\<close>

datatype 't StructField =
  StructField (Name: string) (PkgPath: string) (JsonTag: string) (Type: 't)

datatype gtype =
    TBool
  | TInt
  | TString
  | TPointer gtype
  | TInterface "string list"
  | TMap gtype gtype
  | TSlice gtype
  | TStruct string "gtype StructField list"

datatype gval =
    VBool bool
  | VInt "64 word"
  | VString string
  | VPtr "gval option"
  | VIface "(gtype \<times> gval) option"
  | VMap "(gval \<times> gval) list option"
  | VSlice "gval list option"
  | VStruct "gval list"

type_synonym rvalue = "(gtype \<times> gval) option"

datatype kind = KBool | KInt | KString | KPointer | KInterface | KMap | KSlice | KStruct

fun Kind :: "gtype \<Rightarrow> kind" where
  "Kind TBool = KBool"
| "Kind TInt = KInt"
| "Kind TString = KString"
| "Kind (TPointer _) = KPointer"
| "Kind (TInterface _) = KInterface"
| "Kind (TMap _ _) = KMap"
| "Kind (TSlice _) = KSlice"
| "Kind (TStruct _ _) = KStruct"

lemma size_field_Type [termination_simp]:
  "f \<in> set fs \<Longrightarrow> size (Type f) < Suc (size_list (size_StructField size) fs)"
  by (induction fs) (auto simp: less_Suc_eq_le trans_le_add1 split: StructField.splits, (cases f; simp)+)

text \<open>\<open>reflect.Zero\<close> / \<open>reflect.New(t).Elem()\<close>: the zero value of a type.\<close>

fun zero :: "gtype \<Rightarrow> gval" where
  "zero TBool = VBool False"
| "zero TInt = VInt 0"
| "zero TString = VString []"
| "zero (TPointer _) = VPtr None"
| "zero (TInterface _) = VIface None"
| "zero (TMap _ _) = VMap None"
| "zero (TSlice _) = VSlice None"
| "zero (TStruct _ fs) = VStruct (map (\<lambda>f. zero (Type f)) fs)"

text \<open>
  The accessors of \<open>reflect.Value\<close>.  They are total: on data of another shape, which no
  Go value of the type has, they give the empty view.
\<close>

fun ptrElem :: "gval \<Rightarrow> gval option" where
  "ptrElem (VPtr p) = p"
| "ptrElem _ = None"

fun ifaceDyn :: "gval \<Rightarrow> (gtype \<times> gval) option" where
  "ifaceDyn (VIface d) = d"
| "ifaceDyn _ = None"

fun mapEntries :: "gval \<Rightarrow> (gval \<times> gval) list option" where
  "mapEntries (VMap m) = m"
| "mapEntries _ = None"

fun MapRange :: "gval \<Rightarrow> (gval \<times> gval) list" where
  "MapRange (VMap (Some es)) = es"
| "MapRange _ = []"

fun structFields :: "gval \<Rightarrow> gval list" where
  "structFields (VStruct vs) = vs"
| "structFields _ = []"

fun stringOf :: "gval \<Rightarrow> string" where
  "stringOf (VString s) = s"
| "stringOf _ = []"

text \<open>
  What the verb \<open>%T\<close> prints for \<open>v.Interface()\<close>: the dynamic type, which for a value of
  interface kind is the type of what it holds, and \<open><nil>\<close> (here \<open>None\<close>) when it holds
  nothing.
\<close>

fun fmtT :: "gtype \<times> gval \<Rightarrow> gtype option" where
  "fmtT (TInterface ms, v) = map_option fst (ifaceDyn v)"
| "fmtT (t, v) = Some t"

section \<open>JSON documents\<close>

text \<open>
  A JSON text is modelled by its tree: what \<open>json.Marshal\<close> returns stands for the compact
  text of the tree, and \<open>gjson.ParseBytes\<close> of that text gives the tree back.  Numbers are
  integer literals.  The members of an object are kept in document order, duplicates
  included.
\<close>

datatype json =
    JNull
  | JBool bool
  | JNum int
  | JStr string
  | JArr "json list"
  | JObj "(string \<times> json) list"

text \<open>
  The key that \<open>Result.ForEach\<close> hands to its callback: the member name in an object, the
  index in an array, and an empty \<open>Result\<close> when the iterated value is a scalar, which is
  then visited once as its own only item.  \<open>Str\<close> is empty for all but member names.
\<close>

datatype jkey = MemberName string | ArrayIndex nat | NoKey

fun Str :: "jkey \<Rightarrow> string" where
  "Str (MemberName s) = s"
| "Str _ = []"

section \<open>Errors, panics and results\<close>

text \<open>
  Each \<open>fmt.Errorf\<close> of the source is a constructor carrying the operands of its format;
  a constructor with an \<open>error\<close> argument wraps it (\<open>%w\<close>).  \<open>Foreign\<close> is an error made
  outside the package (the resolver, encoding/json).  The first operand of "do not know how
  to assign" is a \<open>reflect.Value\<close>, for which \<open>%T\<close> prints \<open>reflect.Value\<close> whatever it
  holds, so the constructor carries the second operand only.
\<close>

datatype error =
    Foreign string
  | UnableToStringifyMapKey gval "gtype option"
  | UnableToStringifyMapKeyOfType "gtype option" error
  | UnableToSerializeMapEntry string error
  | UnableToGetTypeID "gtype option" error
  | UnableToSerializeField nat string "gtype option" error
  | UnableToUnstringifyMapKey "gtype option" string
  | ExpectedPointerDestination "gtype option"
  | UnableToUnstringifyKeyValue string error
  | UnableToUnmarshalEntry json jkey error
  | UnableToUnmarshalField json jkey error
  | ExpectedExactlyOneValue nat
  | UnableToConstruct string error
  | UnableToUnmarshal error
  | DoNotKnowHowToAssign gtype

datatype 'a result = Return 'a | Error error | Panic string

fun bind :: "'a result \<Rightarrow> ('a \<Rightarrow> 'b result) \<Rightarrow> 'b result" where
  "bind (Return x) f = f x"
| "bind (Error e) f = Error e"
| "bind (Panic p) f = Panic p"

text \<open>An error returned by a callee is wrapped on its way up; a panic unwinds unchanged.\<close>

fun wrap :: "(error \<Rightarrow> error) \<Rightarrow> 'a result \<Rightarrow> 'a result" where
  "wrap w (Return x) = Return x"
| "wrap w (Error e) = Error (w e)"
| "wrap w (Panic p) = Panic p"

text \<open>A loop over a list that leaves at the first failure.\<close>

fun foldE :: "('s \<Rightarrow> 'a \<Rightarrow> 's result) \<Rightarrow> 'a list \<Rightarrow> 's \<Rightarrow> 's result" where
  "foldE f [] s = Return s"
| "foldE f (x # xs) s = bind (f s x) (foldE f xs)"

section \<open>The key codec\<close>

fun stringifyMapKey :: "gtype \<times> gval \<Rightarrow> string result" where
  "stringifyMapKey (t, k) =
     (if Kind t = KString then Return (stringOf k)
      else Error (UnableToStringifyMapKey k (fmtT (t, k))))"

text \<open>\<open>unstringifyMapKey\<close> stores into the key slot; the model returns the slot's new content.\<close>

fun unstringifyMapKey :: "gtype \<times> gval \<Rightarrow> string \<Rightarrow> gval result" where
  "unstringifyMapKey (t, k) s =
     (if Kind t = KString then Return (VString s)
      else Error (UnableToUnstringifyMapKey (fmtT (t, k)) s))"

section \<open>What the code uses of gjson\<close>

fun gjson_ForEach :: "json \<Rightarrow> (jkey \<times> json) list" where
  "gjson_ForEach (JObj kvs) = map (\<lambda>(k, v). (MemberName k, v)) kvs"
| "gjson_ForEach (JArr xs) = map (\<lambda>(i, x). (ArrayIndex i, x)) (enumerate 0 xs)"
| "gjson_ForEach j = [(NoKey, j)]"

text \<open>A store into a Go map, the map being a list of its entries: \<open>m[k] = v\<close>.\<close>

fun store :: "'k \<Rightarrow> 'v \<Rightarrow> ('k \<times> 'v) list \<Rightarrow> ('k \<times> 'v) list" where
  "store k v [] = [(k, v)]"
| "store k v (e # es) = (if fst e = k then (k, v) # es else e # store k v es)"

text \<open>
  \<open>Result.Map\<close>: the members of an object as a Go map; the empty map for anything that
  is not an object.  gjson stores a member only when the map has no entry of that name yet
  (\<open>if _, ok := r.o[key.Str]; !ok\<close>), so of several members of one name the first is kept.
\<close>

fun keep :: "'k \<Rightarrow> 'v \<Rightarrow> ('k \<times> 'v) list \<Rightarrow> ('k \<times> 'v) list" where
  "keep k v m = (if k \<in> fst ` set m then m else m @ [(k, v)])"

fun gjson_Map :: "json \<Rightarrow> (string \<times> json) list" where
  "gjson_Map (JObj kvs) = foldl (\<lambda>m (k, v). keep k v m) [] kvs"
| "gjson_Map _ = []"

section \<open>What the code uses of encoding/json\<close>

text \<open>The compact text of a document, as \<open>json.Marshal\<close> writes it (bytes below 0x80).\<close>

definition digit :: "nat \<Rightarrow> char" where
  "digit n = (''0123456789abcdef'' ! (n mod 16))"

fun decimal :: "nat \<Rightarrow> string" where
  "decimal n = (if n < 10 then [digit n] else decimal (n div 10) @ [digit (n mod 10)])"

definition render_int :: "int \<Rightarrow> string" where
  "render_int i = (if i < 0 then CHR ''-'' # decimal (nat (- i)) else decimal (nat i))"

definition escape :: "char \<Rightarrow> string" where
  "escape c =
     (if c = CHR 0x22 then [CHR 0x5C, CHR 0x22]
      else if c = CHR 0x5C then [CHR 0x5C, CHR 0x5C]
      else if c = CHR 0x08 then [CHR 0x5C, CHR ''b'']
      else if c = CHR 0x0C then [CHR 0x5C, CHR ''f'']
      else if c = CHR 0x0A then [CHR 0x5C, CHR ''n'']
      else if c = CHR 0x0D then [CHR 0x5C, CHR ''r'']
      else if c = CHR 0x09 then [CHR 0x5C, CHR ''t'']
      else if (of_char c :: nat) < 32 \<or> c = CHR ''<'' \<or> c = CHR ''>'' \<or> c = CHR ''&''
        then [CHR 0x5C, CHR ''u'', CHR ''0'', CHR ''0'',
              digit (of_char c div 16), digit (of_char c mod 16)]
      else [c])"

definition quote :: "string \<Rightarrow> string" where
  "quote s = [CHR 0x22] @ concat (map escape s) @ [CHR 0x22]"

fun commas :: "string list \<Rightarrow> string" where
  "commas [] = []"
| "commas [x] = x"
| "commas (x # y # ys) = x @ '','' @ commas (y # ys)"

fun render :: "json \<Rightarrow> string" where
  "render JNull = ''null''"
| "render (JBool b) = (if b then ''true'' else ''false'')"
| "render (JNum i) = render_int i"
| "render (JStr s) = quote s"
| "render (JArr xs) = ''['' @ commas (map render xs) @ '']''"
| "render (JObj kvs) = ''{'' @ commas (map (\<lambda>(k, v). quote k @ '':'' @ render v) kvs) @ ''}''"

text \<open>\<open>base64.StdEncoding\<close>, which \<open>json.Marshal\<close> applies to a value of type \<open>[]byte\<close>.\<close>

definition b64 :: "nat \<Rightarrow> char" where
  "b64 n = (''ABCDEFGHIJKLMNOPQRSTUVWXYZabcdefghijklmnopqrstuvwxyz0123456789+/'' ! (n mod 64))"

fun base64 :: "string \<Rightarrow> string" where
  "base64 [] = []"
| "base64 [a] =
     (let n = of_char a * 65536
      in [b64 (n div 262144), b64 (n div 4096), CHR ''='', CHR ''=''])"
| "base64 [a, b] =
     (let n = of_char a * 65536 + of_char b * 256
      in [b64 (n div 262144), b64 (n div 4096), b64 (n div 64), CHR ''=''])"
| "base64 (a # b # c # r) =
     (let n = of_char a * 65536 + of_char b * 256 + of_char c
      in [b64 (n div 262144), b64 (n div 4096), b64 (n div 64), b64 n] @ base64 r)"

text \<open>
  The values that \<open>marshal\<close> puts into its \<open>map[string]any\<close>: a \<open>[]byte\<close>, a
  \<open>json.RawMessage\<close>, or a one-entry \<open>map[TypeID]json.RawMessage\<close>; and
  \<open>json.Marshal\<close> of that map: an object with the keys in ascending order, a raw message
  embedded as it is, a byte slice as the string of its base64 text.
\<close>

datatype mvalue = Bytes json | RawMessage json | TypeIDMap string json

fun json_Marshal_value :: "mvalue \<Rightarrow> json" where
  "json_Marshal_value (Bytes b) = JStr (base64 (render b))"
| "json_Marshal_value (RawMessage b) = b"
| "json_Marshal_value (TypeIDMap typeID b) = JObj [(typeID, b)]"

definition json_Marshal_map :: "(string \<times> mvalue) list \<Rightarrow> json" where
  "json_Marshal_map m = JObj (sort_key fst (map (\<lambda>(k, x). (k, json_Marshal_value x)) m))"

fun boolOf :: "gval \<Rightarrow> bool" where
  "boolOf (VBool b) = b"
| "boolOf _ = False"

fun intOf :: "gval \<Rightarrow> 64 word" where
  "intOf (VInt w) = w"
| "intOf _ = 0"

text \<open>\<open>json.Marshal\<close> and \<open>json.Unmarshal\<close> at the scalar kinds.\<close>

fun json_Marshal_scalar :: "gtype \<times> gval \<Rightarrow> json" where
  "json_Marshal_scalar (TBool, v) = JBool (boolOf v)"
| "json_Marshal_scalar (TInt, v) = JNum (sint (intOf v))"
| "json_Marshal_scalar (t, v) = JStr (stringOf v)"

fun json_Unmarshal_scalar :: "json \<Rightarrow> gtype \<times> gval \<Rightarrow> gval result" where
  "json_Unmarshal_scalar JNull (t, v) = Return v"
| "json_Unmarshal_scalar (JBool b) (TBool, v) = Return (VBool b)"
| "json_Unmarshal_scalar (JNum n) (TInt, v) =
     (if - (2 ^ 63) \<le> n \<and> n < 2 ^ 63 then Return (VInt (word_of_int n))
      else Error (Foreign ''json: cannot unmarshal number into Go value of type int''))"
| "json_Unmarshal_scalar (JStr s) (TString, v) = Return (VString s)"
| "json_Unmarshal_scalar j (t, v) = Error (Foreign ''json: cannot unmarshal into Go value'')"

section \<open>The collaborators of a call\<close>

text \<open>
  What a call is given and does not own: the resolver (\<open>TypeIDOf\<close> of a sample,
  \<open>NewByTypeID\<close>, which may return the nil interface, here \<open>None\<close>), the method sets of
  the program's types, which decide \<open>AssignableTo\<close> an interface type, and
  \<open>json.Marshal\<close> / \<open>json.Unmarshal\<close> at slices, to which the code delegates them whole.
\<close>

record env =
  TypeIDOf :: "gtype \<times> gval \<Rightarrow> string result"
  NewByTypeID :: "string \<Rightarrow> rvalue result"
  MethodSet :: "gtype \<Rightarrow> string list"
  json_Marshal_slice :: "gtype \<times> gval \<Rightarrow> json result"
  json_Unmarshal_slice :: "json \<Rightarrow> gtype \<times> gval \<Rightarrow> gval result"

fun AssignableTo :: "env \<Rightarrow> gtype \<Rightarrow> gtype \<Rightarrow> bool" where
  "AssignableTo E (TInterface ms) (TInterface req) = (set req \<subseteq> set ms)"
| "AssignableTo E t (TInterface req) = (set req \<subseteq> set (MethodSet E t))"
| "AssignableTo E t u = (t = u)"

section \<open>Field names on the wire\<close>

text \<open>\<open>strings.Split(tag, ",")\<close>; it never returns an empty list.\<close>

fun strings_Split_comma :: "string \<Rightarrow> string list" where
  "strings_Split_comma [] = [[]]"
| "strings_Split_comma (c # cs) =
     (if c = CHR '','' then [] # strings_Split_comma cs
      else (case strings_Split_comma cs of w # ws \<Rightarrow> (c # w) # ws | [] \<Rightarrow> [[c]]))"

text \<open>
  The lines that \<open>marshal\<close> and \<open>unmarshal\<close> share: the first word of the \<open>json\<close> tag when
  it is not empty, the field's own name otherwise.
\<close>

definition jsonFieldName :: "'t StructField \<Rightarrow> string" where
  "jsonFieldName fT =
     (let tagWords = strings_Split_comma (JsonTag fT)
      in if length (tagWords ! 0) > 0 then tagWords ! 0 else Name fT)"

section \<open>The encoder\<close>

lemma foldE_cong [fundef_cong]:
  "xs = ys \<Longrightarrow> s = t \<Longrightarrow> (\<And>a x. x \<in> set ys \<Longrightarrow> f a x = g a x) \<Longrightarrow> foldE f xs s = foldE g ys t"
proof -
  have "(\<And>a x. x \<in> set ys \<Longrightarrow> f a x = g a x) \<Longrightarrow> foldE f ys t = foldE g ys t"
  proof (induction ys arbitrary: t)
    case Nil
    show ?case by simp
  next
    case (Cons y ys)
    then show ?case by (cases "g t y") auto
  qed
  then show "xs = ys \<Longrightarrow> s = t \<Longrightarrow> (\<And>a x. x \<in> set ys \<Longrightarrow> f a x = g a x) \<Longrightarrow> foldE f xs s = foldE g ys t"
    by simp
qed

lemma bind_cong [fundef_cong]:
  "r = r' \<Longrightarrow> (\<And>x. r' = Return x \<Longrightarrow> f x = g x) \<Longrightarrow> bind r f = bind r' g"
  by (cases r') auto

lemma wrap_cong [fundef_cong]: "r = r' \<Longrightarrow> wrap w r = wrap w r'"
  by simp

lemma size_ptrElem: "ptrElem v = Some p \<Longrightarrow> size p < size v"
  by (cases v) auto

lemma size_ifaceDyn: "ifaceDyn v = Some (t, d) \<Longrightarrow> size d < size v"
  by (cases v) auto

lemma size_entries: "(k, x) \<in> set es \<Longrightarrow> size x < Suc (size_list (size_prod size size) es)"
  by (induction es) auto

lemma size_MapRange: "(k, x) \<in> set (MapRange v) \<Longrightarrow> size x < size v"
  by (induction v rule: MapRange.induct) (auto dest: size_entries)

lemma size_elems: "x \<in> set xs \<Longrightarrow> size x < Suc (size_list size xs)"
  by (induction xs) auto

lemma size_structFields: "x \<in> set (structFields v) \<Longrightarrow> size x < size v"
  by (cases v) (auto dest: size_elems)

text \<open>
  \<open>marshal\<close>, one branch per case of the switch on \<open>v.Kind()\<close>.  A zero \<open>reflect.Value\<close>
  has kind Invalid, falls through the switch, and \<open>v.Interface()\<close> panics on it.  The loop
  state is the local \<open>marshaledFields\<close>.
\<close>

function marshal :: "env \<Rightarrow> rvalue \<Rightarrow> json result" where
  "marshal E None = Panic ''reflect: call of reflect.Value.Interface on zero Value''"
| "marshal E (Some (TInterface ms, v)) =
     (case ifaceDyn v of
        None \<Rightarrow> Return JNull
      | Some (dt, dv) \<Rightarrow> marshal E (Some (dt, dv)))"
| "marshal E (Some (TPointer te, v)) =
     (case ptrElem v of
        None \<Rightarrow> Return JNull
      | Some p \<Rightarrow> marshal E (Some (te, p)))"
| "marshal E (Some (TMap kt vt, v)) =
     bind (foldE
        (\<lambda>marshaledFields (key, val).
           bind (wrap (UnableToStringifyMapKeyOfType (fmtT (kt, key))) (stringifyMapKey (kt, key)))
             (\<lambda>jsonFieldName.
           bind (wrap (UnableToSerializeMapEntry jsonFieldName) (marshal E (Some (vt, val))))
             (\<lambda>b.
           if Kind vt \<noteq> KInterface \<or> ifaceDyn val = None
           then Return (store jsonFieldName (Bytes b) marshaledFields)
           else
           bind (wrap (UnableToGetTypeID (fmtT (vt, val))) (TypeIDOf E (the (ifaceDyn val))))
             (\<lambda>typeID.
           Return (store jsonFieldName (TypeIDMap typeID b) marshaledFields)))))
        (MapRange v) [])
       (\<lambda>marshaledFields. Return (json_Marshal_map marshaledFields))"
| "marshal E (Some (TSlice te, v)) = json_Marshal_slice E (TSlice te, v)"
| "marshal E (Some (TStruct n fs, v)) =
     bind (foldE
        (\<lambda>marshaledFields (i, fT, fV).
           if PkgPath fT \<noteq> [] then Return marshaledFields
           else if JsonTag fT = ''-'' then Return marshaledFields
           else
           bind (wrap (UnableToSerializeField i (Name fT) (Some (TStruct n fs)))
                   (marshal E (Some (Type fT, fV))))
             (\<lambda>b.
           if Kind (Type fT) \<noteq> KInterface \<or> ifaceDyn fV = None
           then Return (store (jsonFieldName fT) (RawMessage b) marshaledFields)
           else
           bind (wrap (UnableToGetTypeID (fmtT (Type fT, fV))) (TypeIDOf E (the (ifaceDyn fV))))
             (\<lambda>typeID.
           Return (store (jsonFieldName fT) (TypeIDMap typeID b) marshaledFields))))
        (zip [0..<length fs] (zip fs (structFields v))) [])
       (\<lambda>marshaledFields. Return (json_Marshal_map marshaledFields))"
| "marshal E (Some (TBool, v)) = Return (json_Marshal_scalar (TBool, v))"
| "marshal E (Some (TInt, v)) = Return (json_Marshal_scalar (TInt, v))"
| "marshal E (Some (TString, v)) = Return (json_Marshal_scalar (TString, v))"
  by pat_completeness auto
termination
proof (relation "measure (\<lambda>(E, rv). case rv of None \<Rightarrow> 0 | Some (t, v) \<Rightarrow> size v)")
qed (auto dest: size_ptrElem size_ifaceDyn size_MapRange size_structFields set_zip_rightD)

definition MarshalWithTypeIDs :: "rvalue \<Rightarrow> env \<Rightarrow> json result" where
  "MarshalWithTypeIDs obj typeIDOfer = marshal typeIDOfer obj"

section \<open>The decoder\<close>

text \<open>\<open>Type.Elem()\<close>.\<close>

fun elemType :: "gtype \<Rightarrow> gtype" where
  "elemType (TPointer t) = t"
| "elemType (TMap k t) = t"
| "elemType (TSlice t) = t"
| "elemType t = t"

text \<open>
  \<open>Value.SetMapIndex\<close>: with the zero \<open>reflect.Value\<close> as element it deletes the key,
  which on a nil map does nothing; a store into a nil map panics.
\<close>

fun SetMapIndex :: "gval \<Rightarrow> gval \<Rightarrow> gval option \<Rightarrow> gval result" where
  "SetMapIndex (VMap (Some es)) key None = Return (VMap (Some (filter (\<lambda>e. fst e \<noteq> key) es)))"
| "SetMapIndex (VMap (Some es)) key (Some elem) = Return (VMap (Some (store key elem es)))"
| "SetMapIndex m key None = Return m"
| "SetMapIndex m key (Some elem) = Panic ''assignment to entry in nil map''"

definition IsNil :: "gval \<Rightarrow> bool" where
  "IsNil m = (mapEntries m = None)"

definition MakeMap :: gval where
  "MakeMap = VMap (Some [])"

text \<open>The local \<open>indexMap\<close> of \<open>unmarshal\<close>: wire name to field index, a later field
  replacing an earlier one of the same wire name.\<close>

definition indexMapOf :: "gtype StructField list \<Rightarrow> (string \<times> nat) list" where
  "indexMapOf fs =
     foldl (\<lambda>indexMap (i, fT).
              if JsonTag fT = ''-'' then indexMap else store (jsonFieldName fT) i indexMap)
       [] (zip [0..<length fs] fs)"

lemma set_store: "set (store k v m) \<subseteq> insert (k, v) (set m)"
  by (induction m) auto

lemma set_foldl_keep:
  "set (foldl (\<lambda>m (k, v). keep k v m) m0 kvs) \<subseteq> set m0 \<union> set kvs"
proof (induction kvs arbitrary: m0)
  case Nil
  show ?case by simp
next
  case (Cons kv kvs)
  obtain k v where kv: "kv = (k, v)" by (cases kv)
  have "set (foldl (\<lambda>m (k, v). keep k v m) (keep k v m0) kvs) \<subseteq> set (keep k v m0) \<union> set kvs"
    by (rule Cons.IH)
  then show ?case unfolding kv by (auto split: if_splits)
qed

lemma size_member: "(k, x) \<in> set kvs \<Longrightarrow> size x < Suc (size_list (size_prod (\<lambda>_. 0) size) kvs)"
  by (induction kvs) auto

lemma size_gjson_Map: "(k, x) \<in> set (gjson_Map j) \<Longrightarrow> size x < size j"
proof (cases j)
  case (JObj kvs)
  assume "(k, x) \<in> set (gjson_Map j)"
  with set_foldl_keep [of "[]" kvs] JObj have "(k, x) \<in> set kvs" by auto
  with JObj show ?thesis by (auto dest: size_member)
qed auto

lemma size_gjson_ForEach: "(k, x) \<in> set (gjson_ForEach j) \<Longrightarrow> size x \<le> size j"
proof (cases j)
  case (JObj kvs)
  assume "(k, x) \<in> set (gjson_ForEach j)"
  with JObj show ?thesis by (auto dest: size_member)
next
  case (JArr xs)
  assume "(k, x) \<in> set (gjson_ForEach j)"
  with JArr have "x \<in> set xs" by (auto simp: in_set_enumerate_eq)
  then have "size x < Suc (size_list size xs)" by (induction xs) auto
  with JArr show ?thesis by simp
qed auto

lemma indexMapOf_aux:
  "set (foldl (\<lambda>indexMap (i, fT).
              if JsonTag fT = ''-'' then indexMap else store (jsonFieldName fT) i indexMap) m0 xs)
   \<subseteq> set m0 \<union> (\<lambda>(i, fT). (jsonFieldName fT, i)) ` set xs"
proof (induction xs arbitrary: m0)
  case Nil
  show ?case by simp
next
  case (Cons x xs)
  obtain i fT where x: "x = (i, fT)" by (cases x)
  show ?case using Cons.IH [of "if JsonTag fT = ''-'' then m0 else store (jsonFieldName fT) i m0"]
    set_store [of "jsonFieldName fT" i m0] unfolding x by (auto split: if_splits)
qed

lemma indexMapOf_lt: "map_of (indexMapOf fs) k = Some i \<Longrightarrow> i < length fs"
proof -
  assume "map_of (indexMapOf fs) k = Some i"
  then have "(k, i) \<in> set (indexMapOf fs)" by (rule map_of_SomeD)
  with indexMapOf_aux [of "[]" "zip [0..<length fs] fs"] show ?thesis
    by (auto simp: indexMapOf_def dest!: set_zip_leftD)
qed

lemma size_ForEach_eq:
  "(k, x) \<in> set (gjson_ForEach obj) \<Longrightarrow> \<not> size x < size obj \<Longrightarrow> size x = size obj"
  by (drule size_gjson_ForEach) simp

lemma size_indexed_field:
  "map_of (indexMapOf fs) k = Some i \<Longrightarrow>
   2 * size (Type (fs ! i)) < Suc (2 * size_list (size_StructField size) fs)"
  by (drule indexMapOf_lt, drule nth_mem, drule size_field_Type) simp

lemma size_gjson_Map_single: "gjson_Map val = [(a, b)] \<Longrightarrow> size b < size val"
  by (rule size_gjson_Map [of a]) simp

text \<open>
  \<open>unmarshal\<close> and \<open>unmarshalTo\<close>.  The flag says whether \<open>v\<close> can be set
  (\<open>v.CanSet()\<close>): a value made by \<open>reflect.ValueOf\<close> or \<open>Addr\<close> cannot, the
  \<open>Elem\<close> of a pointer can.  Go mutates the destination in place and returns an error or
  nil; \<open>unmarshal\<close> here returns what \<open>v\<close> points to after the call, \<open>unmarshalTo\<close>
  the new content of \<open>out\<close>.  \<open>gjson.ParseBytes\<close> is the identity on document trees.
\<close>

function (sequential) unmarshal :: "env \<Rightarrow> json \<Rightarrow> bool \<Rightarrow> rvalue \<Rightarrow> gval result"
  and unmarshalTo :: "env \<Rightarrow> gval \<Rightarrow> gtype \<Rightarrow> json \<Rightarrow> gval result" where
  "unmarshal E obj settable None = Panic ''reflect: call of reflect.Value.Interface on zero Value''"
| "unmarshal E obj settable (Some (TPointer te, v)) =
     (if ptrElem v = None \<and> \<not> settable
      then Panic ''reflect: reflect.Value.Set using unaddressable value''
      else
        let p = (case ptrElem v of None \<Rightarrow> zero te | Some p \<Rightarrow> p)
        in (case te of
              TInterface ms \<Rightarrow> unmarshal E obj True (Some (te, p))
            | TPointer t' \<Rightarrow>
                bind (unmarshal E obj True (Some (te, p))) (\<lambda>p'. Return (VPtr (Some p')))
            | TMap keyType valueType \<Rightarrow>
                bind (foldE (\<lambda>m (k, x). SetMapIndex m k None) (MapRange p) p)
                  (foldE
                    (\<lambda>m (key, val).
                       bind (wrap (UnableToUnstringifyKeyValue (Str key))
                               (unstringifyMapKey (keyType, zero keyType) (Str key)))
                         (\<lambda>keyValue.
                       bind (wrap (UnableToUnmarshalEntry val key)
                               (unmarshalTo E (zero valueType) valueType val))
                         (\<lambda>valueValue.
                       SetMapIndex (if IsNil m then MakeMap else m) keyValue (Some valueValue))))
                    (gjson_ForEach obj))
            | TSlice t' \<Rightarrow> json_Unmarshal_slice E obj (te, p)
            | TStruct n fs \<Rightarrow>
                bind (foldE
                    (\<lambda>vs (key, val).
                       case map_of (indexMapOf fs) (Str key) of
                         None \<Rightarrow> Return vs
                       | Some fieldIndex \<Rightarrow>
                           if length vs \<le> fieldIndex
                           then Panic ''reflect: Field index out of range''
                           else if PkgPath (fs ! fieldIndex) \<noteq> [] then Return vs
                           else
                             bind (wrap (UnableToUnmarshalField val key)
                                     (unmarshalTo E (vs ! fieldIndex) (Type (fs ! fieldIndex)) val))
                               (\<lambda>fV. Return (vs[fieldIndex := fV])))
                    (gjson_ForEach obj) (structFields p))
                  (\<lambda>vs. Return (VStruct vs))
            | _ \<Rightarrow> json_Unmarshal_scalar obj (te, p)))"
| "unmarshal E obj settable (Some (t, v)) = Error (ExpectedPointerDestination (fmtT (t, v)))"
| "unmarshalTo E out outType val =
     (if Kind outType = KPointer \<and> val = JNull then Return (zero outType)
      else if Kind outType = KInterface then
        (if val = JNull then Return (zero outType)
         else
           (case gjson_Map val of
              [(typeID, valueUnparsed)] \<Rightarrow>
                bind (wrap (UnableToConstruct typeID) (NewByTypeID E typeID))
                  (\<lambda>typedValuePtr.
                bind (wrap UnableToUnmarshal (unmarshal E valueUnparsed False typedValuePtr))
                  (\<lambda>contentOutElem.
                if AssignableTo E (elemType (fst (the typedValuePtr))) outType
                then Return (VIface (Some (elemType (fst (the typedValuePtr)), contentOutElem)))
                else if AssignableTo E (fst (the typedValuePtr)) outType
                then Return (VIface (Some (fst (the typedValuePtr), VPtr (Some contentOutElem))))
                else Error (DoNotKnowHowToAssign outType)))
            | m \<Rightarrow> Error (ExpectedExactlyOneValue (length m))))
      else
        wrap UnableToUnmarshal (unmarshal E val False (Some (TPointer outType, VPtr (Some out)))))"
  by pat_completeness auto
termination
  apply (relation "inv_image (less_than <*lex*> less_than)
     (\<lambda>a. case a of
        Inl (E, obj, settable, rv) \<Rightarrow> (size obj, case rv of None \<Rightarrow> 0 | Some (t, v) \<Rightarrow> 2 * size t)
      | Inr (E, out, outType, val) \<Rightarrow> (size val, 2 * size outType + 3))")
  apply (auto intro: size_ForEach_eq size_indexed_field dest: size_gjson_Map_single)
  done


definition UnmarshalWithTypeIDs :: "json \<Rightarrow> rvalue \<Rightarrow> env \<Rightarrow> gval result" where
  "UnmarshalWithTypeIDs b dst newByTypeIDer = unmarshal newByTypeIDer b False dst"

section \<open>The decoder, branch by branch\<close>

text \<open>
  The bodies of the two \<open>ForEach\<close> callbacks and of the loop that empties the map, named,
  and \<open>unmarshal\<close> restated with them: one equation for each case of its switch.
\<close>

declare unmarshal.simps [simp del] unmarshalTo.simps [simp del] marshal.simps [simp del]

definition decodeEntry ::
  "env \<Rightarrow> gtype \<Rightarrow> gtype \<Rightarrow> gval \<Rightarrow> jkey \<times> json \<Rightarrow> gval result" where
  "decodeEntry E keyType valueType m kv =
     (case kv of (key, val) \<Rightarrow>
        bind (wrap (UnableToUnstringifyKeyValue (Str key))
                (unstringifyMapKey (keyType, zero keyType) (Str key)))
          (\<lambda>keyValue.
        bind (wrap (UnableToUnmarshalEntry val key)
                (unmarshalTo E (zero valueType) valueType val))
          (\<lambda>valueValue.
        SetMapIndex (if IsNil m then MakeMap else m) keyValue (Some valueValue))))"

definition decodeField ::
  "env \<Rightarrow> gtype StructField list \<Rightarrow> gval list \<Rightarrow> jkey \<times> json \<Rightarrow> gval list result" where
  "decodeField E fs vs kv =
     (case kv of (key, val) \<Rightarrow>
        (case map_of (indexMapOf fs) (Str key) of
           None \<Rightarrow> Return vs
         | Some fieldIndex \<Rightarrow>
             if length vs \<le> fieldIndex
             then Panic ''reflect: Field index out of range''
             else if PkgPath (fs ! fieldIndex) \<noteq> [] then Return vs
             else
               bind (wrap (UnableToUnmarshalField val key)
                       (unmarshalTo E (vs ! fieldIndex) (Type (fs ! fieldIndex)) val))
                 (\<lambda>fV. Return (vs[fieldIndex := fV]))))"

definition deleteAll :: "gval \<Rightarrow> gval result" where
  "deleteAll m = foldE (\<lambda>m (k, x). SetMapIndex m k None) (MapRange m) m"

definition pointee :: "gtype \<Rightarrow> gval \<Rightarrow> gval" where
  "pointee te v = (case ptrElem v of None \<Rightarrow> zero te | Some p \<Rightarrow> p)"

lemma unmarshal_not_pointer:
  "Kind t \<noteq> KPointer \<Longrightarrow>
   unmarshal E obj settable (Some (t, v)) = Error (ExpectedPointerDestination (fmtT (t, v)))"
  by (cases t) (simp_all add: unmarshal.simps)


lemma unmarshal_to_interface:
  "ptrElem v \<noteq> None \<or> settable \<Longrightarrow>
   unmarshal E obj settable (Some (TPointer (TInterface ms), v)) =
     Error (ExpectedPointerDestination (fmtT (TInterface ms, pointee (TInterface ms) v)))"
  by (rule trans [OF unmarshal.simps(2)]) (auto simp: Let_def pointee_def unmarshal_not_pointer)

lemma unmarshal_to_pointer:
  "ptrElem v \<noteq> None \<or> settable \<Longrightarrow>
   unmarshal E obj settable (Some (TPointer (TPointer t), v)) =
     bind (unmarshal E obj True (Some (TPointer t, pointee (TPointer t) v)))
       (\<lambda>p. Return (VPtr (Some p)))"
  by (rule trans [OF unmarshal.simps(2)]) (auto simp: Let_def pointee_def)

lemma unmarshal_to_map:
  "ptrElem v \<noteq> None \<or> settable \<Longrightarrow>
   unmarshal E obj settable (Some (TPointer (TMap keyType valueType), v)) =
     bind (deleteAll (pointee (TMap keyType valueType) v))
       (foldE (decodeEntry E keyType valueType) (gjson_ForEach obj))"
proof -
  have "decodeEntry E keyType valueType = (\<lambda>m (key, val).
           bind (wrap (UnableToUnstringifyKeyValue (Str key))
                   (unstringifyMapKey (keyType, zero keyType) (Str key)))
             (\<lambda>keyValue.
           bind (wrap (UnableToUnmarshalEntry val key)
                   (unmarshalTo E (zero valueType) valueType val))
             (\<lambda>valueValue.
           SetMapIndex (if IsNil m then MakeMap else m) keyValue (Some valueValue))))"
    by (intro ext) (simp add: decodeEntry_def)
  then show "ptrElem v \<noteq> None \<or> settable \<Longrightarrow> ?thesis"
    by (simp only: unmarshal.simps(2)) (auto simp: Let_def pointee_def deleteAll_def)
qed

lemma unmarshal_to_struct:
  "ptrElem v \<noteq> None \<or> settable \<Longrightarrow>
   unmarshal E obj settable (Some (TPointer (TStruct n fs), v)) =
     bind (foldE (decodeField E fs) (gjson_ForEach obj) (structFields (pointee (TStruct n fs) v)))
       (\<lambda>vs. Return (VStruct vs))"
proof -
  have "decodeField E fs = (\<lambda>vs (key, val).
           case map_of (indexMapOf fs) (Str key) of
             None \<Rightarrow> Return vs
           | Some fieldIndex \<Rightarrow>
               if length vs \<le> fieldIndex
               then Panic ''reflect: Field index out of range''
               else if PkgPath (fs ! fieldIndex) \<noteq> [] then Return vs
               else
                 bind (wrap (UnableToUnmarshalField val key)
                         (unmarshalTo E (vs ! fieldIndex) (Type (fs ! fieldIndex)) val))
                   (\<lambda>fV. Return (vs[fieldIndex := fV])))"
    by (intro ext) (simp add: decodeField_def)
  then show "ptrElem v \<noteq> None \<or> settable \<Longrightarrow> ?thesis"
    by (simp only: unmarshal.simps(2)) (auto simp: Let_def pointee_def)
qed

lemma unmarshal_to_scalar:
  "ptrElem v \<noteq> None \<or> settable \<Longrightarrow> te = TBool \<or> te = TInt \<or> te = TString \<Longrightarrow>
   unmarshal E obj settable (Some (TPointer te, v)) = json_Unmarshal_scalar obj (te, pointee te v)"
  by (auto simp: unmarshal.simps Let_def pointee_def)

lemma unmarshal_to_slice:
  "ptrElem v \<noteq> None \<or> settable \<Longrightarrow>
   unmarshal E obj settable (Some (TPointer (TSlice t), v)) =
     json_Unmarshal_slice E obj (TSlice t, pointee (TSlice t) v)"
  by (auto simp: unmarshal.simps Let_def pointee_def)


section \<open>The encoder, branch by branch\<close>

text \<open>The bodies of the two loops of \<open>marshal\<close>, named, and \<open>marshal\<close> restated with them.\<close>

definition encodeEntry ::
  "env \<Rightarrow> gtype \<Rightarrow> gtype \<Rightarrow> (string \<times> mvalue) list \<Rightarrow> gval \<times> gval \<Rightarrow> (string \<times> mvalue) list result" where
  "encodeEntry E kt vt marshaledFields kv =
     (case kv of (key, val) \<Rightarrow>
        bind (wrap (UnableToStringifyMapKeyOfType (fmtT (kt, key))) (stringifyMapKey (kt, key)))
          (\<lambda>jsonFieldName.
        bind (wrap (UnableToSerializeMapEntry jsonFieldName) (marshal E (Some (vt, val))))
          (\<lambda>b.
        if Kind vt \<noteq> KInterface \<or> ifaceDyn val = None
        then Return (store jsonFieldName (Bytes b) marshaledFields)
        else
        bind (wrap (UnableToGetTypeID (fmtT (vt, val))) (TypeIDOf E (the (ifaceDyn val))))
          (\<lambda>typeID.
        Return (store jsonFieldName (TypeIDMap typeID b) marshaledFields)))))"

definition encodeField ::
  "env \<Rightarrow> gtype \<Rightarrow> (string \<times> mvalue) list \<Rightarrow> nat \<times> gtype StructField \<times> gval \<Rightarrow> (string \<times> mvalue) list result" where
  "encodeField E t marshaledFields ifv =
     (case ifv of (i, fT, fV) \<Rightarrow>
        if PkgPath fT \<noteq> [] then Return marshaledFields
        else if JsonTag fT = ''-'' then Return marshaledFields
        else
        bind (wrap (UnableToSerializeField i (Name fT) (Some t))
                (marshal E (Some (Type fT, fV))))
          (\<lambda>b.
        if Kind (Type fT) \<noteq> KInterface \<or> ifaceDyn fV = None
        then Return (store (jsonFieldName fT) (RawMessage b) marshaledFields)
        else
        bind (wrap (UnableToGetTypeID (fmtT (Type fT, fV))) (TypeIDOf E (the (ifaceDyn fV))))
          (\<lambda>typeID.
        Return (store (jsonFieldName fT) (TypeIDMap typeID b) marshaledFields))))"

lemma marshal_map:
  "marshal E (Some (TMap kt vt, v)) =
     bind (foldE (encodeEntry E kt vt) (MapRange v) [])
       (\<lambda>marshaledFields. Return (json_Marshal_map marshaledFields))"
proof -
  have "encodeEntry E kt vt = (\<lambda>marshaledFields (key, val).
           bind (wrap (UnableToStringifyMapKeyOfType (fmtT (kt, key))) (stringifyMapKey (kt, key)))
             (\<lambda>jsonFieldName.
           bind (wrap (UnableToSerializeMapEntry jsonFieldName) (marshal E (Some (vt, val))))
             (\<lambda>b.
           if Kind vt \<noteq> KInterface \<or> ifaceDyn val = None
           then Return (store jsonFieldName (Bytes b) marshaledFields)
           else
           bind (wrap (UnableToGetTypeID (fmtT (vt, val))) (TypeIDOf E (the (ifaceDyn val))))
             (\<lambda>typeID.
           Return (store jsonFieldName (TypeIDMap typeID b) marshaledFields)))))"
    by (intro ext) (simp add: encodeEntry_def)
  then show ?thesis
    by (simp only: marshal.simps)
qed

lemma marshal_struct:
  "marshal E (Some (TStruct n fs, v)) =
     bind (foldE (encodeField E (TStruct n fs)) (zip [0..<length fs] (zip fs (structFields v))) [])
       (\<lambda>marshaledFields. Return (json_Marshal_map marshaledFields))"
proof -
  have "encodeField E (TStruct n fs) = (\<lambda>marshaledFields (i, fT, fV).
           if PkgPath fT \<noteq> [] then Return marshaledFields
           else if JsonTag fT = ''-'' then Return marshaledFields
           else
           bind (wrap (UnableToSerializeField i (Name fT) (Some (TStruct n fs)))
                   (marshal E (Some (Type fT, fV))))
             (\<lambda>b.
           if Kind (Type fT) \<noteq> KInterface \<or> ifaceDyn fV = None
           then Return (store (jsonFieldName fT) (RawMessage b) marshaledFields)
           else
           bind (wrap (UnableToGetTypeID (fmtT (Type fT, fV))) (TypeIDOf E (the (ifaceDyn fV))))
             (\<lambda>typeID.
           Return (store (jsonFieldName fT) (TypeIDMap typeID b) marshaledFields))))"
    by (intro ext) (simp add: encodeField_def)
  then show ?thesis
    by (simp only: marshal.simps)
qed

section \<open>A small program\<close>

text \<open>
  The types of the package's example and a registry for them, used to run the codec on
  concrete inputs: a struct \<open>myFancyStruct\<close> with one int field, a struct \<open>logK\<close> whose
  method \<open>Calculate\<close> has a pointer receiver, the interface \<open>calculator\<close> requiring that
  method, and \<open>any\<close>.  The registry knows \<open>myFancyStruct\<close> and \<open>logK\<close> and nothing else.
\<close>

definition myFancyStruct :: gtype where
  "myFancyStruct = TStruct ''myFancyStruct'' [StructField ''A'' [] [] TInt]"

definition logK :: gtype where
  "logK = TStruct ''logK'' [StructField ''K'' [] [] TInt]"

definition any :: gtype where
  "any = TInterface []"

definition calculator :: gtype where
  "calculator = TInterface [''Calculate'']"

definition registry :: env where
  "registry =
     \<lparr> TypeIDOf = (\<lambda>(t, v).
          if t = myFancyStruct then Return ''myFancyStruct''
          else if t = TPointer logK then Return ''logK''
          else Error (Foreign ''type is not registered'')),
       NewByTypeID = (\<lambda>typeID.
          if typeID = ''myFancyStruct'' then Return (Some (TPointer myFancyStruct, VPtr (Some (zero myFancyStruct))))
          else if typeID = ''logK'' then Return (Some (TPointer logK, VPtr (Some (zero logK))))
          else Error (Foreign ''TypeID is not registered'')),
       MethodSet = (\<lambda>t. if t = TPointer logK then [''Calculate''] else []),
       json_Marshal_slice = (\<lambda>tv. Error (Foreign ''slices are not part of the example'')),
       json_Unmarshal_slice = (\<lambda>j tv. Error (Foreign ''slices are not part of the example'')) \<rparr>"

text \<open>A struct with one field of interface type, named \<open>x\<close> on the wire.\<close>

definition holder :: gtype where
  "holder = TStruct ''holder'' [StructField ''X'' [] ''x'' any]"

text \<open>A struct with two fields of the same wire name, and one with a tag option and a skipped field.\<close>

definition twins :: gtype where
  "twins = TStruct ''twins'' [StructField ''A'' [] ''x'' TInt, StructField ''B'' [] ''x,omitempty'' TInt]"

definition tagged :: gtype where
  "tagged = TStruct ''tagged'' [StructField ''Count'' [] ''count,omitempty'' TInt, StructField ''Note'' [] ''-'' TString]"

text \<open>A struct with one field declared with the interface \<open>calculator\<close>.\<close>

definition calcHolder :: gtype where
  "calcHolder = TStruct ''calcHolder'' [StructField ''Calc'' [] [] calculator]"

text \<open>A struct with an int field and a field of interface type.\<close>

definition pairHolder :: gtype where
  "pairHolder = TStruct ''pairHolder'' [StructField ''N'' [] [] TInt, StructField ''X'' [] ''x'' any]"

text \<open>A struct whose only field, of interface type, is not exported.\<close>

definition hidden :: gtype where
  "hidden = TStruct ''hidden'' [StructField ''x'' ''main'' [] any]"

lemmas example_defs =
  myFancyStruct_def logK_def any_def calculator_def holder_def calcHolder_def pairHolder_def hidden_def twins_def tagged_def registry_def
  MarshalWithTypeIDs_def UnmarshalWithTypeIDs_def marshal.simps unmarshal.simps unmarshalTo.simps
  json_Marshal_map_def jsonFieldName_def indexMapOf_def IsNil_def MakeMap_def
  b64_def render_int_def digit_def quote_def escape_def

section \<open>Notions used in the statements\<close>


definition emitted :: "'t StructField \<Rightarrow> bool" where
  "emitted fT = (PkgPath fT = [] \<and> JsonTag fT \<noteq> ''-'')"



text \<open>
  The field names and map keys that an error names, through all the errors it wraps.
\<close>

fun positions :: "error \<Rightarrow> string list" where
  "positions (UnableToSerializeField i name t e) = name # positions e"
| "positions (UnableToSerializeMapEntry key e) = key # positions e"
| "positions (UnableToStringifyMapKeyOfType t e) = positions e"
| "positions (UnableToGetTypeID t e) = positions e"
| "positions (UnableToUnstringifyKeyValue key e) = key # positions e"
| "positions (UnableToUnmarshalEntry j key e) = Str key # positions e"
| "positions (UnableToUnmarshalField j key e) = Str key # positions e"
| "positions (UnableToConstruct typeID e) = positions e"
| "positions (UnableToUnmarshal e) = positions e"
| "positions e = []"

text \<open>Collaborators that return errors and do not panic.\<close>

definition quiet :: "env \<Rightarrow> bool" where
  "quiet E = ((\<forall>x p. TypeIDOf E x \<noteq> Panic p) \<and> (\<forall>x p. json_Marshal_slice E x \<noteq> Panic p))"





section \<open>Failure and its propagation\<close>

text \<open>A call fails when it returns an error or panics.\<close>

fun failed :: "'a result \<Rightarrow> bool" where
  "failed (Return x) = False"
| "failed (Error e) = True"
| "failed (Panic p) = True"

text \<open>The error at the bottom of a chain of wrapped errors.\<close>

fun cause :: "error \<Rightarrow> error" where
  "cause (UnableToStringifyMapKeyOfType t e) = cause e"
| "cause (UnableToSerializeMapEntry key e) = cause e"
| "cause (UnableToGetTypeID t e) = cause e"
| "cause (UnableToSerializeField i name t e) = cause e"
| "cause (UnableToUnstringifyKeyValue key e) = cause e"
| "cause (UnableToUnmarshalEntry j key e) = cause e"
| "cause (UnableToUnmarshalField j key e) = cause e"
| "cause (UnableToConstruct typeID e) = cause e"
| "cause (UnableToUnmarshal e) = cause e"
| "cause e = e"

text \<open>The number of member names of a document: each name once, none when it is no object.\<close>

fun memberCount :: "json \<Rightarrow> nat" where
  "memberCount (JObj kvs) = length (remdups (map fst kvs))"
| "memberCount j = 0"

text \<open>
  How a call of \<open>unmarshal\<close> arrives at a call of \<open>unmarshalTo\<close>.
  \<open>reaches E dst settable obj slot w\<close> says that \<open>unmarshal E obj settable dst\<close> comes
  to the call \<open>unmarshalTo E out outType val\<close>, \<open>slot\<close> being \<open>(out, outType, val)\<close>, after
  everything before it has succeeded, and that an error returned by that call comes back
  as \<open>w\<close> of it.  \<open>reachesFrom E out' outType' val' slot w\<close> says the same of the call
  \<open>unmarshalTo E out' outType' val'\<close>.  The rules follow the code: through the wrapper of an
  interface-declared slot into the instance made by the resolver, through a slot of
  another kind, through a pointer to a pointer, and into the entry of a map or the field
  of a struct after the members before it have been decoded.
\<close>

inductive reachesFrom :: "env \<Rightarrow> gval \<Rightarrow> gtype \<Rightarrow> json \<Rightarrow> gval \<times> gtype \<times> json \<Rightarrow> (error \<Rightarrow> error) \<Rightarrow> bool"
  and reaches :: "env \<Rightarrow> rvalue \<Rightarrow> bool \<Rightarrow> json \<Rightarrow> gval \<times> gtype \<times> json \<Rightarrow> (error \<Rightarrow> error) \<Rightarrow> bool"
  for E :: env where
  here: "reachesFrom E out outType val (out, outType, val) (\<lambda>e. e)"
| content: "Kind outType = KInterface \<Longrightarrow> val \<noteq> JNull \<Longrightarrow> gjson_Map val = [(typeID, inner)] \<Longrightarrow>
      NewByTypeID E typeID = Return dst \<Longrightarrow> reaches E dst False inner slot w \<Longrightarrow>
      reachesFrom E out outType val slot (\<lambda>e. UnableToUnmarshal (w e))"
| direct: "Kind outType \<noteq> KInterface \<Longrightarrow> \<not> (Kind outType = KPointer \<and> val = JNull) \<Longrightarrow>
      reaches E (Some (TPointer outType, VPtr (Some out))) False val slot w \<Longrightarrow>
      reachesFrom E out outType val slot (\<lambda>e. UnableToUnmarshal (w e))"
| pointer: "ptrElem v \<noteq> None \<or> settable \<Longrightarrow>
      reaches E (Some (TPointer t, pointee (TPointer t) v)) True obj slot w \<Longrightarrow>
      reaches E (Some (TPointer (TPointer t), v)) settable obj slot w"
| entry: "ptrElem v \<noteq> None \<or> settable \<Longrightarrow>
      unmarshal E (JObj pre) settable (Some (TPointer (TMap keyType valueType), v)) = Return m \<Longrightarrow>
      Kind keyType = KString \<Longrightarrow>
      reachesFrom E (zero valueType) valueType val slot w \<Longrightarrow>
      reaches E (Some (TPointer (TMap keyType valueType), v)) settable (JObj (pre @ (k, val) # post)) slot
        (\<lambda>e. UnableToUnmarshalEntry val (MemberName k) (w e))"
| field: "ptrElem v \<noteq> None \<or> settable \<Longrightarrow>
      unmarshal E (JObj pre) settable (Some (TPointer (TStruct n fs), v)) = Return (VStruct vs) \<Longrightarrow>
      map_of (indexMapOf fs) k = Some i \<Longrightarrow> i < length vs \<Longrightarrow> PkgPath (fs ! i) = [] \<Longrightarrow>
      reachesFrom E (vs ! i) (Type (fs ! i)) val slot w \<Longrightarrow>
      reaches E (Some (TPointer (TStruct n fs), v)) settable (JObj (pre @ (k, val) # post)) slot
        (\<lambda>e. UnableToUnmarshalField val (MemberName k) (w e))"

lemma failed_bind: "failed r \<Longrightarrow> failed (bind r f)"
  by (cases r) auto

lemma failed_bind2: "(\<And>x. r = Return x \<Longrightarrow> failed (f x)) \<Longrightarrow> failed (bind r f)"
  by (cases r) auto

lemma failed_wrap [simp]: "failed (wrap w r) = failed r"
  by (cases r) auto

lemma failed_foldE:
  "x \<in> set xs \<Longrightarrow> (\<And>s. failed (f s x)) \<Longrightarrow> failed (foldE f xs s)"
proof (induction xs arbitrary: s)
  case Nil
  then show ?case by simp
next
  case (Cons y ys)
  show ?case
  proof (cases "x = y")
    case True
    with Cons.prems(2) show ?thesis by (simp add: failed_bind)
  next
    case False
    with Cons.prems have "x \<in> set ys" by simp
    then have "\<And>s'. failed (foldE f ys s')" using Cons.prems(2) by (rule Cons.IH)
    then show ?thesis by (simp add: failed_bind2)
  qed
qed

lemma map_fst_store:
  "map fst (store k v m) = (if k \<in> fst ` set m then map fst m else map fst m @ [k])"
  by (induction m) auto

lemma foldE_not_Panic:
  "(\<And>s x. x \<in> set xs \<Longrightarrow> f s x \<noteq> Panic p) \<Longrightarrow> foldE f xs s \<noteq> Panic p"
proof (induction xs arbitrary: s)
  case Nil
  show ?case by simp
next
  case (Cons x xs)
  then show ?case by (cases "f s x") auto
qed

lemma bind_not_Panic:
  "r \<noteq> Panic p \<Longrightarrow> (\<And>x. r = Return x \<Longrightarrow> f x \<noteq> Panic p) \<Longrightarrow> bind r f \<noteq> Panic p"
  by (cases r) auto

lemma wrap_not_Panic [simp]: "(wrap w r = Panic p) = (r = Panic p)"
  by (cases r) auto

lemma bind_eq_Panic: "(bind r f = Panic p) = (r = Panic p \<or> (\<exists>x. r = Return x \<and> f x = Panic p))"
  by (cases r) auto

lemma bind_eq_Return: "(bind r f = Return y) = (\<exists>x. r = Return x \<and> f x = Return y)"
  by (cases r) auto

lemma wrap_eq_Return [simp]: "(wrap w r = Return x) = (r = Return x)"
  by (cases r) auto

lemma marshal_not_Panic:
  "quiet E \<Longrightarrow> rv \<noteq> None \<Longrightarrow> marshal E rv \<noteq> Panic p"
proof (induction E rv rule: marshal.induct)
  case (1 E)
  then show ?case by simp
next
  case (2 E ms v)
  then show ?case by (auto simp: marshal.simps split: option.splits)
next
  case (3 E te v)
  then show ?case by (auto simp: marshal.simps split: option.splits)
next
  case (4 E kt vt v)
  have "foldE (encodeEntry E kt vt) (MapRange v) [] \<noteq> Panic p"
  proof (rule foldE_not_Panic)
    fix s x assume x: "x \<in> set (MapRange v)"
    obtain key val where kv: "x = (key, val)" by (cases x)
    have m: "marshal E (Some (vt, val)) \<noteq> Panic p"
      if "wrap (UnableToStringifyMapKeyOfType (fmtT (kt, key))) (stringifyMapKey (kt, key)) = Return name"
      for name
      using 4(1) [OF x kv [symmetric] that 4(2)] by simp
    show "encodeEntry E kt vt s x \<noteq> Panic p"
      using m 4(2) unfolding encodeEntry_def kv quiet_def
      by (auto simp: bind_eq_Panic split: if_splits)
  qed
  then show ?case by (auto simp: marshal_map bind_eq_Panic)
next
  case (5 E te v)
  then show ?case by (simp add: marshal.simps quiet_def)
next
  case (6 E n fs v)
  have "foldE (encodeField E (TStruct n fs)) (zip [0..<length fs] (zip fs (structFields v))) [] \<noteq> Panic p"
  proof (rule foldE_not_Panic)
    fix s x assume x: "x \<in> set (zip [0..<length fs] (zip fs (structFields v)))"
    obtain i fT fV where kv: "x = (i, fT, fV)" by (cases x)
    have m: "PkgPath fT = [] \<Longrightarrow> JsonTag fT \<noteq> ''-'' \<Longrightarrow> marshal E (Some (Type fT, fV)) \<noteq> Panic p"
      using 6(1) [OF x kv [symmetric] refl _ _ 6(2)] by simp
    show "encodeField E (TStruct n fs) s x \<noteq> Panic p"
      using m 6(2) unfolding encodeField_def kv quiet_def
      by (auto simp: bind_eq_Panic split: if_splits)
  qed
  then show ?case by (auto simp: marshal_struct bind_eq_Panic)
qed (simp_all add: marshal.simps)


lemma failed_not_Panic: "failed r \<Longrightarrow> (\<And>p. r \<noteq> Panic p) \<Longrightarrow> \<exists>err. r = Error err"
  by (cases r) auto

lemma failed_encodeEntry:
  assumes "TypeIDOf E d = Error e" and "Kind vt = KInterface" and "ifaceDyn x = Some d"
  shows "failed (encodeEntry E kt vt s (k, x))"
proof (cases "stringifyMapKey (kt, k)")
  case (Return name)
  then show ?thesis
    using assms by (cases "marshal E (Some (vt, x))") (simp_all add: encodeEntry_def)
qed (simp_all add: encodeEntry_def)

lemma failed_encodeField:
  assumes "TypeIDOf E d = Error e" and "PkgPath fT = []" and "JsonTag fT \<noteq> ''-''"
    and "Kind (Type fT) = KInterface" and "ifaceDyn fV = Some d"
  shows "failed (encodeField E t s (i, fT, fV))"
  using assms by (cases "marshal E (Some (Type fT, fV))") (simp_all add: encodeField_def)

lemma deleteAll_aux:
  "foldE (\<lambda>m (k, x). SetMapIndex m k None) xs (VMap (Some es)) =
     Return (VMap (Some (filter (\<lambda>e. fst e \<notin> fst ` set xs) es)))"
proof (induction xs arbitrary: es)
  case Nil
  show ?case by simp
next
  case (Cons x xs)
  obtain k y where x: "x = (k, y)" by (cases x)
  have "filter (\<lambda>e. fst e \<notin> fst ` set xs) (filter (\<lambda>e. fst e \<noteq> k) es) =
        filter (\<lambda>e. fst e \<notin> fst ` set (x # xs)) es"
    by (auto simp: x intro: filter_cong)
  then show ?case by (simp add: x Cons.IH)
qed

lemma deleteAll_map [simp]: "deleteAll (VMap (Some es)) = Return (VMap (Some []))"
proof -
  have "filter (\<lambda>e. fst e \<notin> fst ` set es) es = []" by (auto simp: filter_empty_conv)
  then show ?thesis by (simp add: deleteAll_def deleteAll_aux)
qed

lemma deleteAll_other: "MapRange m = [] \<Longrightarrow> deleteAll m = Return m"
  by (simp add: deleteAll_def)

lemma MapRange_deleteAll: "\<exists>m'. deleteAll m = Return m' \<and> MapRange m' = []"
  by (cases m rule: MapRange.cases) (auto simp: deleteAll_other)

lemma fst_set_store: "fst ` set (store k v m) = insert k (fst ` set m)"
  by (induction m) auto

lemma keys_decodeEntry:
  assumes "decodeEntry E kt vt m (key, val) = Return m'"
  shows "fst ` set (MapRange m') = insert (VString (Str key)) (fst ` set (MapRange m))"
proof -
  from assms obtain x where
    s: "SetMapIndex (if IsNil m then MakeMap else m) (VString (Str key)) (Some x) = Return m'"
    by (auto simp: decodeEntry_def bind_eq_Return split: if_splits)
  show ?thesis
  proof (cases "mapEntries m")
    case None
    then have "MapRange m = []" by (cases m rule: MapRange.cases) auto
    with s None show ?thesis by (auto simp: IsNil_def MakeMap_def)
  next
    case (Some es)
    then have "m = VMap (Some es)" by (cases m rule: mapEntries.cases) auto
    with s have "m' = VMap (Some (store (VString (Str key)) x es))" by (auto simp: IsNil_def)
    with \<open>m = VMap (Some es)\<close> show ?thesis by (simp add: fst_set_store)
  qed
qed

lemma keys_decodeEntries:
  "foldE (decodeEntry E kt vt) xs m = Return r \<Longrightarrow>
   fst ` set (MapRange r) = fst ` set (MapRange m) \<union> (\<lambda>kv. VString (Str (fst kv))) ` set xs"
proof (induction xs arbitrary: m)
  case Nil
  then show ?case by simp
next
  case (Cons x xs)
  obtain key val where x: "x = (key, val)" by (cases x)
  from Cons.prems obtain m' where
    1: "decodeEntry E kt vt m (key, val) = Return m'" and 2: "foldE (decodeEntry E kt vt) xs m' = Return r"
    by (auto simp: x bind_eq_Return)
  show ?case using Cons.IH [OF 2] keys_decodeEntry [OF 1] by (auto simp: x)
qed

section \<open>Loops, member by member\<close>

lemma foldE_append: "foldE f (xs @ ys) s = bind (foldE f xs s) (foldE f ys)"
proof (induction xs arbitrary: s)
  case Nil
  show ?case by simp
next
  case (Cons x xs)
  show ?case by (cases "f s x") (simp_all add: Cons.IH)
qed

lemma foldE_snoc: "foldE f (xs @ [x]) s = bind (foldE f xs s) (\<lambda>s'. f s' x)"
proof -
  have "foldE f [x] = (\<lambda>s'. f s' x)"
    by (intro ext) (simp, case_tac "f s' x", simp_all)
  then show ?thesis by (simp add: foldE_append)
qed

lemma bind_Return_right [simp]: "bind r Return = r"
  by (cases r) auto

lemma foldE_Nil [simp]: "foldE f [] = Return"
  by (intro ext) simp


lemma bind_eq_Error:
  "(bind r f = Error e) = (r = Error e \<or> (\<exists>x. r = Return x \<and> f x = Error e))"
  by (cases r) auto

lemma wrap_eq_Error [simp]: "(wrap w r = Error e) = (\<exists>c. r = Error c \<and> e = w c)"
  by (cases r) auto

text \<open>Decoding an object into a struct or a map, member by member.\<close>

lemma unmarshal_struct_members:
  assumes "ptrElem v \<noteq> None \<or> settable"
    and "unmarshal E (JObj pre) settable (Some (TPointer (TStruct n fs), v)) = Return r"
  shows "\<exists>vs. r = VStruct vs \<and>
    unmarshal E (JObj (pre @ (k, val) # post)) settable (Some (TPointer (TStruct n fs), v)) =
      bind (bind (decodeField E fs vs (MemberName k, val))
              (foldE (decodeField E fs) (gjson_ForEach (JObj post))))
        (\<lambda>vs. Return (VStruct vs))"
proof -
  from assms obtain vs where
    p: "foldE (decodeField E fs) (gjson_ForEach (JObj pre)) (structFields (pointee (TStruct n fs) v)) = Return vs"
    and r: "r = VStruct vs"
    by (auto simp: unmarshal_to_struct bind_eq_Return)
  have "gjson_ForEach (JObj (pre @ (k, val) # post)) =
          gjson_ForEach (JObj pre) @ (MemberName k, val) # gjson_ForEach (JObj post)"
    by simp
  then show ?thesis
    using p r assms(1) by (simp add: unmarshal_to_struct foldE_append del: gjson_ForEach.simps)
qed

lemma unmarshal_map_members:
  assumes "ptrElem v \<noteq> None \<or> settable"
    and "unmarshal E (JObj pre) settable (Some (TPointer (TMap kt vt), v)) = Return m"
  shows "unmarshal E (JObj (pre @ (k, val) # post)) settable (Some (TPointer (TMap kt vt), v)) =
      bind (decodeEntry E kt vt m (MemberName k, val))
        (foldE (decodeEntry E kt vt) (gjson_ForEach (JObj post)))"
proof -
  from assms obtain m0 where d: "deleteAll (pointee (TMap kt vt) v) = Return m0"
    and p: "foldE (decodeEntry E kt vt) (gjson_ForEach (JObj pre)) m0 = Return m"
    by (auto simp: unmarshal_to_map bind_eq_Return)
  have "gjson_ForEach (JObj (pre @ (k, val) # post)) =
          gjson_ForEach (JObj pre) @ (MemberName k, val) # gjson_ForEach (JObj post)"
    by simp
  then show ?thesis
    using p d assms(1) by (simp add: unmarshal_to_map foldE_append del: gjson_ForEach.simps)
qed

lemma reaches_error:
  shows "reachesFrom E out' outType' val' slot w \<Longrightarrow>
           (case slot of (out, outType, val) \<Rightarrow> unmarshalTo E out outType val) = Error c \<Longrightarrow>
           unmarshalTo E out' outType' val' = Error (w c) \<and> cause (w c) = cause c"
    and "reaches E dst settable obj slot w \<Longrightarrow>
           (case slot of (out, outType, val) \<Rightarrow> unmarshalTo E out outType val) = Error c \<Longrightarrow>
           unmarshal E obj settable dst = Error (w c) \<and> cause (w c) = cause c"
proof (induction rule: reachesFrom_reaches.inducts)
  case (here out outType val)
  then show ?case by simp
next
  case (content outType val typeID inner dst slot w out)
  then show ?case by (simp add: unmarshalTo.simps)
next
  case (direct outType val out slot w)
  then show ?case by (auto simp: unmarshalTo.simps)
next
  case (pointer v settable t obj slot w)
  then show ?case by (simp add: unmarshal_to_pointer)
next
  case (entry v settable pre keyType valueType m val slot w k post)
  have "unmarshal E (JObj (pre @ (k, val) # post)) settable (Some (TPointer (TMap keyType valueType), v)) =
      bind (decodeEntry E keyType valueType m (MemberName k, val))
        (foldE (decodeEntry E keyType valueType) (gjson_ForEach (JObj post)))"
    using \<open>ptrElem v \<noteq> None \<or> settable\<close>
      \<open>unmarshal E (JObj pre) settable (Some (TPointer (TMap keyType valueType), v)) = Return m\<close>
    by (rule unmarshal_map_members)
  with entry show ?case
    by (simp add: decodeEntry_def)
next
  case (field v settable pre n fs vs k i val slot w post)
  have "\<exists>vs'. VStruct vs = VStruct vs' \<and>
    unmarshal E (JObj (pre @ (k, val) # post)) settable (Some (TPointer (TStruct n fs), v)) =
      bind (bind (decodeField E fs vs' (MemberName k, val))
              (foldE (decodeField E fs) (gjson_ForEach (JObj post))))
        (\<lambda>vs. Return (VStruct vs))"
    using \<open>ptrElem v \<noteq> None \<or> settable\<close>
      \<open>unmarshal E (JObj pre) settable (Some (TPointer (TStruct n fs), v)) = Return (VStruct vs)\<close>
    by (rule unmarshal_struct_members)
  with field show ?case
    by (simp add: decodeField_def)
qed


lemma keys_foldl_keep:
  "distinct (map fst m0) \<Longrightarrow>
   distinct (map fst (foldl (\<lambda>m (k, v). keep k v m) m0 kvs)) \<and>
   fst ` set (foldl (\<lambda>m (k, v). keep k v m) m0 kvs) = fst ` set m0 \<union> fst ` set kvs"
proof (induction kvs arbitrary: m0)
  case Nil
  then show ?case by simp
next
  case (Cons kv kvs)
  obtain k v where kv: "kv = (k, v)" by (cases kv)
  have d: "distinct (map fst (keep k v m0))"
    using Cons.prems by simp
  have s: "fst ` set (keep k v m0) = insert k (fst ` set m0)"
    by auto
  show ?case using Cons.IH [OF d] unfolding kv s by (simp del: keep.simps)
qed

lemma length_gjson_Map: "length (gjson_Map val) = memberCount val"
proof (cases val)
  case (JObj kvs)
  have "distinct (map fst (gjson_Map (JObj kvs)))" and "fst ` set (gjson_Map (JObj kvs)) = fst ` set kvs"
    using keys_foldl_keep [of "[]" kvs] by simp_all
  then have "length (gjson_Map (JObj kvs)) = card (fst ` set kvs)"
    by (metis distinct_card length_map list.set_map)
  then show ?thesis by (simp add: JObj length_remdups_card_conv del: gjson_Map.simps)
qed simp_all

lemma malformed_wrapper_error:
  assumes "Kind outType = KInterface" and "val \<noteq> JNull" and "memberCount val \<noteq> 1"
  shows "unmarshalTo E out outType val = Error (ExpectedExactlyOneValue (memberCount val))"
proof -
  have "length (gjson_Map val) \<noteq> 1" using assms(3) by (simp add: length_gjson_Map)
  then have "(case gjson_Map val of [(typeID, valueUnparsed)] \<Rightarrow> f typeID valueUnparsed
               | m \<Rightarrow> Error (ExpectedExactlyOneValue (length m))) =
             Error (ExpectedExactlyOneValue (length (gjson_Map val)))" for f :: "string \<Rightarrow> json \<Rightarrow> gval result"
    by (cases "gjson_Map val"; cases "tl (gjson_Map val)") (auto split: list.splits)
  then show ?thesis using assms(1,2)
    by (simp add: unmarshalTo.simps length_gjson_Map)
qed

lemma interface_slot:
  assumes "Kind outType = KInterface" and "val \<noteq> JNull"
    and "gjson_Map val = [(typeID, inner)]"
    and "NewByTypeID E typeID = Return (Some (ct, cv))"
    and "unmarshal E inner False (Some (ct, cv)) = Return content"
  shows "unmarshalTo E out outType val =
     (if AssignableTo E (elemType ct) outType
        then Return (VIface (Some (elemType ct, content)))
      else if AssignableTo E ct outType
        then Return (VIface (Some (ct, VPtr (Some content))))
      else Error (DoNotKnowHowToAssign outType))"
  using assms by (simp add: unmarshalTo.simps)

lemma SetMapIndex_store:
  "SetMapIndex (if IsNil m then MakeMap else m) key (Some x) = Return (VMap (Some (store key x (MapRange m))))"
  by (cases m rule: MapRange.cases) (simp_all add: IsNil_def MakeMap_def)









lemma encodeField_skip: "\<not> emitted fT \<Longrightarrow> encodeField E t acc (i, fT, fV) = Return acc"
  by (simp add: encodeField_def emitted_def)

lemma encodeField_emit:
  "emitted fT \<Longrightarrow>
   encodeField E t acc (i, fT, fV) =
     bind (wrap (UnableToSerializeField i (Name fT) (Some t)) (marshal E (Some (Type fT, fV))))
       (\<lambda>b. if Kind (Type fT) \<noteq> KInterface \<or> ifaceDyn fV = None
            then Return (store (jsonFieldName fT) (RawMessage b) acc)
            else bind (wrap (UnableToGetTypeID (fmtT (Type fT, fV))) (TypeIDOf E (the (ifaceDyn fV))))
                   (\<lambda>typeID. Return (store (jsonFieldName fT) (TypeIDMap typeID b) acc)))"
  by (simp add: encodeField_def emitted_def)

lemma encodeField_Return:
  assumes "encodeField E t acc (i, fT, fV) = Return acc'"
  shows "(\<not> emitted fT \<and> acc' = acc) \<or> (emitted fT \<and> (\<exists>x. acc' = store (jsonFieldName fT) x acc))"
proof (cases "emitted fT")
  case False
  with assms show ?thesis by (simp add: encodeField_skip)
next
  case True
  from assms obtain b where b: "marshal E (Some (Type fT, fV)) = Return b"
    and r: "(if Kind (Type fT) \<noteq> KInterface \<or> ifaceDyn fV = None
            then Return (store (jsonFieldName fT) (RawMessage b) acc)
            else bind (wrap (UnableToGetTypeID (fmtT (Type fT, fV))) (TypeIDOf E (the (ifaceDyn fV))))
                   (\<lambda>typeID. Return (store (jsonFieldName fT) (TypeIDMap typeID b) acc))) = Return acc'"
    unfolding encodeField_emit [OF True] bind_eq_Return by auto
  show ?thesis
  proof (cases "Kind (Type fT) \<noteq> KInterface \<or> ifaceDyn fV = None")
    case direct: True
    with r have "acc' = store (jsonFieldName fT) (RawMessage b) acc" by simp
    with True show ?thesis by blast
  next
    case False
    with r have "\<exists>typeID. acc' = store (jsonFieldName fT) (TypeIDMap typeID b) acc"
      by (auto simp: bind_eq_Return)
    with True show ?thesis by blast
  qed
qed

lemma keys_encodeField:
  assumes "encodeField E t acc (i, fT, fV) = Return acc'"
  shows "fst ` set acc \<subseteq> fst ` set acc'" and "emitted fT \<Longrightarrow> jsonFieldName fT \<in> fst ` set acc'"
  using encodeField_Return [OF assms]
  by (elim disjE conjE exE, simp_all add: fst_set_store subset_insertI)+

lemma keys_encodeFields:
  assumes "foldE (encodeField E t) xs acc = Return acc'"
  shows "fst ` set acc \<subseteq> fst ` set acc'"
    and "(i, fT, fV) \<in> set xs \<Longrightarrow> emitted fT \<Longrightarrow> jsonFieldName fT \<in> fst ` set acc'"
  using assms
proof (induction xs arbitrary: acc)
  case Nil
  { case 1 then show ?case by simp }
  { case 2 then show ?case by simp }
next
  case (Cons x xs)
  obtain i' fT' fV' where x: "x = (i', fT', fV')" by (cases x)
  { case 1
    then obtain acc1 where
      a: "encodeField E t acc (i', fT', fV') = Return acc1" and b: "foldE (encodeField E t) xs acc1 = Return acc'"
      unfolding x by (auto simp: bind_eq_Return)
    from keys_encodeField(1) [OF a] Cons.IH(1) [OF b] show ?case by blast }
  { case 2
    then obtain acc1 where
      a: "encodeField E t acc (i', fT', fV') = Return acc1" and b: "foldE (encodeField E t) xs acc1 = Return acc'"
      unfolding x by (auto simp: bind_eq_Return)
    show ?case
    proof (cases "(i, fT, fV) = (i', fT', fV')")
      case True
      with keys_encodeField(2) [OF a] 2(2) have "jsonFieldName fT \<in> fst ` set acc1" by simp
      with Cons.IH(1) [OF b] show ?thesis by blast
    next
      case False
      with 2(1) x have "(i, fT, fV) \<in> set xs" by auto
      then show ?thesis using 2(2) b by (rule Cons.IH(2))
    qed }
qed

lemma keys_json_Marshal_map:
  "json_Marshal_map m = JObj kvs \<Longrightarrow> fst ` set kvs = fst ` set m"
  by (force simp: json_Marshal_map_def)

lemma encodeField_Return_type:
  "(encodeField E t acc x = Return r) = (encodeField E t' acc x = Return r)"
proof -
  obtain i fT fV where x: "x = (i, fT, fV)" by (cases x)
  show ?thesis
    unfolding x encodeField_def
    by (cases "marshal E (Some (Type fT, fV))") simp_all
qed

lemma encodeFields_Return_type:
  "(foldE (encodeField E t) xs acc = Return r) = (foldE (encodeField E t') xs acc = Return r)"
proof (induction xs arbitrary: acc)
  case Nil
  show ?case by simp
next
  case (Cons x xs)
  show ?case
    using encodeField_Return_type [of E t acc x _ t'] Cons.IH
    by (simp add: bind_eq_Return)
qed

lemma zip_fields_split:
  assumes "length pre_v = length pre_f"
  shows "zip [0..<length (pre_f @ fT # post_f)] (zip (pre_f @ fT # post_f) (pre_v @ fV # post_v)) =
         zip [0..<length pre_f] (zip pre_f pre_v) @
         (length pre_f, fT, fV) #
         zip [Suc (length pre_f)..<length (pre_f @ fT # post_f)] (zip post_f post_v)"
proof -
  have u: "[0..<length (pre_f @ fT # post_f)] =
        [0..<length pre_f] @ length pre_f # [Suc (length pre_f)..<length (pre_f @ fT # post_f)]"
    by (metis length_append less_add_Suc1 list.size(4) add_Suc_right upt_conv_Cons upt_add_eq_append zero_le add_0)
  have z: "zip (pre_f @ fT # post_f) (pre_v @ fV # post_v) = zip pre_f pre_v @ (fT, fV) # zip post_f post_v"
    using assms by simp
  show ?thesis unfolding u z
    using assms by (subst zip_append) simp_all
qed






















section \<open>The key codec is total exactly on keys of string kind\<close>

text \<open>
  C8.  \<open>stringifyMapKey\<close> and \<open>unstringifyMapKey\<close> succeed on every key whose kind is
  String: the first returns the key's text, the second stores the given text in the key
  slot.  On a key of any other kind both return an error, always the same one for the same
  key, and the error carries the runtime type of the key (what \<open>%T\<close> prints for it).
\<close>

theorem key_codec_string_kind_only:
  "(Kind t = KString \<longrightarrow>
      stringifyMapKey (t, VString s) = Return s \<and>
      unstringifyMapKey (t, k) s = Return (VString s)) \<and>
   (Kind t \<noteq> KString \<longrightarrow>
      stringifyMapKey (t, k) = Error (UnableToStringifyMapKey k (fmtT (t, k))) \<and>
      unstringifyMapKey (t, k) s = Error (UnableToUnstringifyMapKey (fmtT (t, k)) s))"
  by simp

theorem key_codec_string_kind_only_witness:
  "Kind TString = KString \<and>
   stringifyMapKey (TString, VString ''k1'') = Return ''k1'' \<and>
   unstringifyMapKey (TString, VString []) ''k1'' = Return (VString ''k1'') \<and>
   Kind TInt \<noteq> KString \<and>
   stringifyMapKey (TInt, VInt 7) = Error (UnableToStringifyMapKey (VInt 7) (Some TInt)) \<and>
   unstringifyMapKey (TInt, VInt 0) ''7'' = Error (UnableToUnstringifyMapKey (Some TInt) ''7'')"
  using key_codec_string_kind_only [of TString "''k1''" "VString []"]
    key_codec_string_kind_only [of TInt "''7''" "VInt 7"]
    key_codec_string_kind_only [of TInt "''7''" "VInt 0"]
  by simp

section \<open>Destinations of the wrong shape\<close>

text \<open>
  C4.  A destination that is a typed nil pointer makes \<open>UnmarshalWithTypeIDs\<close> panic,
  whatever the input bytes and the resolver: \<open>unmarshal\<close> tries to allocate the pointee with
  \<open>v.Set\<close>, and the value made by \<open>reflect.ValueOf(dst)\<close> cannot be set.  The nil
  interface as destination panics as well, in \<open>v.Interface()\<close>.  Only a destination of a
  non-pointer type gets the error value.
\<close>

theorem nil_pointer_destination_panics:
  "UnmarshalWithTypeIDs b (Some (TPointer t, VPtr None)) E =
     Panic ''reflect: reflect.Value.Set using unaddressable value'' \<and>
   UnmarshalWithTypeIDs b None E =
     Panic ''reflect: call of reflect.Value.Interface on zero Value''"
  by (simp add: UnmarshalWithTypeIDs_def unmarshal.simps)

section \<open>The wrapper of an interface-declared slot\<close>

text \<open>
  C5.  Decoding into a slot declared with an interface type, from a JSON value that is not
  null: unless the value is an object with exactly one member name (a name counts once,
  as in the Go map that \<open>Result.Map\<close> returns; a value that is no object has none),
  \<open>unmarshalTo\<close> returns the error "expected exactly one value, but got n", \<open>n\<close> being the
  number of names.  The failure ends the whole call: whenever \<open>UnmarshalWithTypeIDs\<close> of a
  document \<open>b\<close> arrives at such a slot, it returns an error, namely that error inside the
  wrappers of the levels it passes on the way back.
\<close>

theorem malformed_wrapper_is_fatal:
  assumes "Kind outType = KInterface" and "val \<noteq> JNull" and "memberCount val \<noteq> 1"
  shows "unmarshalTo E out outType val = Error (ExpectedExactlyOneValue (memberCount val)) \<and>
         (reaches E dst False b (out, outType, val) w \<longrightarrow>
            UnmarshalWithTypeIDs b dst E = Error (w (ExpectedExactlyOneValue (memberCount val))) \<and>
            cause (w (ExpectedExactlyOneValue (memberCount val))) =
              ExpectedExactlyOneValue (memberCount val))"
proof (intro conjI impI)
  show e: "unmarshalTo E out outType val = Error (ExpectedExactlyOneValue (memberCount val))"
    using assms by (rule malformed_wrapper_error)
  assume r: "reaches E dst False b (out, outType, val) w"
  from reaches_error(2) [OF r, of "ExpectedExactlyOneValue (memberCount val)"] e
  show "UnmarshalWithTypeIDs b dst E = Error (w (ExpectedExactlyOneValue (memberCount val)))"
    and "cause (w (ExpectedExactlyOneValue (memberCount val))) = ExpectedExactlyOneValue (memberCount val)"
    by (simp_all add: UnmarshalWithTypeIDs_def)
qed

theorem malformed_wrapper_is_fatal_witness:
  "Kind any = KInterface \<and> JObj [(''a'', JNum 1), (''b'', JNum 2)] \<noteq> JNull \<and>
   memberCount (JObj [(''a'', JNum 1), (''b'', JNum 2)]) \<noteq> 1 \<and>
   reaches registry (Some (TPointer holder, VPtr (Some (zero holder)))) False
     (JObj [(''x'', JObj [(''a'', JNum 1), (''b'', JNum 2)])])
     (VIface None, any, JObj [(''a'', JNum 1), (''b'', JNum 2)])
     (\<lambda>e. UnableToUnmarshalField (JObj [(''a'', JNum 1), (''b'', JNum 2)]) (MemberName ''x'') e) \<and>
   unmarshalTo registry (VIface None) any (JObj [(''a'', JNum 1), (''b'', JNum 2)]) =
     Error (ExpectedExactlyOneValue 2) \<and>
   UnmarshalWithTypeIDs (JObj [(''x'', JObj [(''a'', JNum 1), (''b'', JNum 2)])])
       (Some (TPointer holder, VPtr (Some (zero holder)))) registry =
     Error (UnableToUnmarshalField (JObj [(''a'', JNum 1), (''b'', JNum 2)]) (MemberName ''x'')
              (ExpectedExactlyOneValue 2))"
proof -
  let ?val = "JObj [(''a'', JNum 1), (''b'', JNum 2)]"
  have k: "Kind any = KInterface" by (simp add: any_def)
  have n: "?val \<noteq> JNull" by simp
  have c: "memberCount ?val = 2" by simp
  have p: "unmarshal registry (JObj []) False
             (Some (TPointer (TStruct ''holder'' [StructField ''X'' [] ''x'' any]), VPtr (Some (VStruct [VIface None])))) =
           Return (VStruct [VIface None])"
    by (simp add: unmarshal_to_struct pointee_def)
  have "reaches registry
          (Some (TPointer (TStruct ''holder'' [StructField ''X'' [] ''x'' any]), VPtr (Some (VStruct [VIface None]))))
          False (JObj ([] @ (''x'', ?val) # []))
          ([VIface None] ! 0, Type ([StructField ''X'' [] ''x'' any] ! 0), ?val)
          (\<lambda>e. UnableToUnmarshalField ?val (MemberName ''x'') ((\<lambda>e. e) e))"
    by (rule reachesFrom_reaches.field [OF _ p _ _ _ reachesFrom_reaches.here])
       (simp_all add: indexMapOf_def jsonFieldName_def)
  then have r: "reaches registry (Some (TPointer holder, VPtr (Some (zero holder)))) False
     (JObj [(''x'', ?val)]) (VIface None, any, ?val)
     (\<lambda>e. UnableToUnmarshalField ?val (MemberName ''x'') e)"
    by (simp add: holder_def any_def)
  show ?thesis
    using malformed_wrapper_is_fatal [OF k n, of registry "VIface None"
        "Some (TPointer holder, VPtr (Some (zero holder)))" "JObj [(''x'', ?val)]"
        "\<lambda>e. UnableToUnmarshalField ?val (MemberName ''x'') e"] r k c
    by simp
qed


section \<open>Assignment to the interface slot\<close>

text \<open>
  C7.  In a slot declared with an interface type, once the content of the one-member
  wrapper has been decoded into the instance that the resolver allocated: if the type of
  the dereferenced instance is assignable to the declared interface, the slot gets the
  dereferenced value; otherwise, if the pointer type itself is assignable, the slot gets
  the pointer; otherwise \<open>unmarshalTo\<close> returns the error "internal error: do not know how
  to assign".  For the whole call: when neither is assignable and \<open>UnmarshalWithTypeIDs\<close>
  arrives at the slot, it returns that error inside the wrappers of the levels passed; and
  when the slot is the field of the struct, or the entry of the map, that the call decodes
  and the wrapper is the last member of the document, the result of the call holds the
  assigned value in that field, or under that key, the rest being what the members before
  it gave.
\<close>

theorem interface_slot_assignment:
  assumes "Kind outType = KInterface" and "val \<noteq> JNull"
    and "gjson_Map val = [(typeID, inner)]"
    and "NewByTypeID E typeID = Return (Some (ct, cv))"
    and "unmarshal E inner False (Some (ct, cv)) = Return content"
  shows
    "unmarshalTo E out outType val =
       (if AssignableTo E (elemType ct) outType
          then Return (VIface (Some (elemType ct, content)))
        else if AssignableTo E ct outType
          then Return (VIface (Some (ct, VPtr (Some content))))
        else Error (DoNotKnowHowToAssign outType)) \<and>
     (\<not> AssignableTo E (elemType ct) outType \<and> \<not> AssignableTo E ct outType \<and>
      reaches E dst False b (out, outType, val) w \<longrightarrow>
        UnmarshalWithTypeIDs b dst E = Error (w (DoNotKnowHowToAssign outType)) \<and>
        cause (w (DoNotKnowHowToAssign outType)) = DoNotKnowHowToAssign outType) \<and>
     (ptrElem v \<noteq> None \<and>
      UnmarshalWithTypeIDs (JObj pre) (Some (TPointer (TStruct n fs), v)) E = Return (VStruct vs) \<and>
      map_of (indexMapOf fs) k = Some i \<and> i < length vs \<and> PkgPath (fs ! i) = [] \<and>
      Type (fs ! i) = outType \<longrightarrow>
        UnmarshalWithTypeIDs (JObj (pre @ [(k, val)])) (Some (TPointer (TStruct n fs), v)) E =
          (if AssignableTo E (elemType ct) outType
             then Return (VStruct (vs[i := VIface (Some (elemType ct, content))]))
           else if AssignableTo E ct outType
             then Return (VStruct (vs[i := VIface (Some (ct, VPtr (Some content)))]))
           else Error (UnableToUnmarshalField val (MemberName k) (DoNotKnowHowToAssign outType)))) \<and>
     (ptrElem v \<noteq> None \<and> Kind keyType = KString \<and>
      UnmarshalWithTypeIDs (JObj pre) (Some (TPointer (TMap keyType outType), v)) E = Return m \<longrightarrow>
        UnmarshalWithTypeIDs (JObj (pre @ [(k, val)])) (Some (TPointer (TMap keyType outType), v)) E =
          (if AssignableTo E (elemType ct) outType
             then Return (VMap (Some (store (VString k) (VIface (Some (elemType ct, content))) (MapRange m))))
           else if AssignableTo E ct outType
             then Return (VMap (Some (store (VString k) (VIface (Some (ct, VPtr (Some content)))) (MapRange m))))
           else Error (UnableToUnmarshalEntry val (MemberName k) (DoNotKnowHowToAssign outType))))"
proof (intro conjI impI)
  have slot: "unmarshalTo E out' outType val =
       (if AssignableTo E (elemType ct) outType
          then Return (VIface (Some (elemType ct, content)))
        else if AssignableTo E ct outType
          then Return (VIface (Some (ct, VPtr (Some content))))
        else Error (DoNotKnowHowToAssign outType))" for out'
    using assms by (rule interface_slot)
  show "unmarshalTo E out outType val =
       (if AssignableTo E (elemType ct) outType
          then Return (VIface (Some (elemType ct, content)))
        else if AssignableTo E ct outType
          then Return (VIface (Some (ct, VPtr (Some content))))
        else Error (DoNotKnowHowToAssign outType))"
    by (rule slot)
  {
    assume a: "\<not> AssignableTo E (elemType ct) outType \<and> \<not> AssignableTo E ct outType \<and>
      reaches E dst False b (out, outType, val) w"
    then have e: "unmarshalTo E out outType val = Error (DoNotKnowHowToAssign outType)"
      by (simp add: slot)
    from a have r: "reaches E dst False b (out, outType, val) w" by simp
    from reaches_error(2) [OF r, of "DoNotKnowHowToAssign outType"] e
    show "UnmarshalWithTypeIDs b dst E = Error (w (DoNotKnowHowToAssign outType))"
      and "cause (w (DoNotKnowHowToAssign outType)) = DoNotKnowHowToAssign outType"
      by (simp_all add: UnmarshalWithTypeIDs_def)
  }
  {
    assume a: "ptrElem v \<noteq> None \<and>
      UnmarshalWithTypeIDs (JObj pre) (Some (TPointer (TStruct n fs), v)) E = Return (VStruct vs) \<and>
      map_of (indexMapOf fs) k = Some i \<and> i < length vs \<and> PkgPath (fs ! i) = [] \<and>
      Type (fs ! i) = outType"
    then have p: "ptrElem v \<noteq> None \<or> False"
      and u: "unmarshal E (JObj pre) False (Some (TPointer (TStruct n fs), v)) = Return (VStruct vs)"
      by (simp_all add: UnmarshalWithTypeIDs_def)
    from unmarshal_struct_members [OF p u, of k val "[]"]
    have "unmarshal E (JObj (pre @ [(k, val)])) False (Some (TPointer (TStruct n fs), v)) =
            bind (decodeField E fs vs (MemberName k, val)) (\<lambda>vs. Return (VStruct vs))"
      by simp
    with a show "UnmarshalWithTypeIDs (JObj (pre @ [(k, val)])) (Some (TPointer (TStruct n fs), v)) E =
          (if AssignableTo E (elemType ct) outType
             then Return (VStruct (vs[i := VIface (Some (elemType ct, content))]))
           else if AssignableTo E ct outType
             then Return (VStruct (vs[i := VIface (Some (ct, VPtr (Some content)))]))
           else Error (UnableToUnmarshalField val (MemberName k) (DoNotKnowHowToAssign outType)))"
      by (simp add: UnmarshalWithTypeIDs_def decodeField_def slot)
  }
  {
    assume a: "ptrElem v \<noteq> None \<and> Kind keyType = KString \<and>
      UnmarshalWithTypeIDs (JObj pre) (Some (TPointer (TMap keyType outType), v)) E = Return m"
    then have p: "ptrElem v \<noteq> None \<or> False"
      and u: "unmarshal E (JObj pre) False (Some (TPointer (TMap keyType outType), v)) = Return m"
      by (simp_all add: UnmarshalWithTypeIDs_def)
    from unmarshal_map_members [OF p u, of k val "[]"]
    have "unmarshal E (JObj (pre @ [(k, val)])) False (Some (TPointer (TMap keyType outType), v)) =
            decodeEntry E keyType outType m (MemberName k, val)"
      by simp
    with a show "UnmarshalWithTypeIDs (JObj (pre @ [(k, val)])) (Some (TPointer (TMap keyType outType), v)) E =
          (if AssignableTo E (elemType ct) outType
             then Return (VMap (Some (store (VString k) (VIface (Some (elemType ct, content))) (MapRange m))))
           else if AssignableTo E ct outType
             then Return (VMap (Some (store (VString k) (VIface (Some (ct, VPtr (Some content)))) (MapRange m))))
           else Error (UnableToUnmarshalEntry val (MemberName k) (DoNotKnowHowToAssign outType)))"
      by (simp add: UnmarshalWithTypeIDs_def decodeEntry_def slot SetMapIndex_store)
  }
qed


theorem interface_slot_assignment_witness:
  "UnmarshalWithTypeIDs (JObj [(''x'', JObj [(''myFancyStruct'', JObj [(''A'', JNum 1)])])])
       (Some (TPointer holder, VPtr (Some (zero holder)))) registry =
     Return (VStruct [VIface (Some (myFancyStruct, VStruct [VInt 1]))]) \<and>
   UnmarshalWithTypeIDs (JObj [(''B'', JObj [(''myFancyStruct'', JObj [(''A'', JNum 1)])])])
       (Some (TPointer (TMap TString any), VPtr (Some (VMap None)))) registry =
     Return (VMap (Some [(VString ''B'', VIface (Some (myFancyStruct, VStruct [VInt 1])))])) \<and>
   UnmarshalWithTypeIDs (JObj [(''Calc'', JObj [(''logK'', JObj [(''K'', JNum 3)])])])
       (Some (TPointer calcHolder, VPtr (Some (zero calcHolder)))) registry =
     Return (VStruct [VIface (Some (TPointer logK, VPtr (Some (VStruct [VInt 3]))))]) \<and>
   UnmarshalWithTypeIDs (JObj [(''Calc'', JObj [(''myFancyStruct'', JObj [(''A'', JNum 1)])])])
       (Some (TPointer calcHolder, VPtr (Some (zero calcHolder)))) registry =
     Error (UnableToUnmarshalField (JObj [(''myFancyStruct'', JObj [(''A'', JNum 1)])]) (MemberName ''Calc'')
              (DoNotKnowHowToAssign calculator)) \<and>
   reaches registry (Some (TPointer calcHolder, VPtr (Some (zero calcHolder)))) False
     (JObj [(''Calc'', JObj [(''myFancyStruct'', JObj [(''A'', JNum 1)])])])
     (VIface None, calculator, JObj [(''myFancyStruct'', JObj [(''A'', JNum 1)])])
     (\<lambda>e. UnableToUnmarshalField (JObj [(''myFancyStruct'', JObj [(''A'', JNum 1)])]) (MemberName ''Calc'') e) \<and>
   cause (UnableToUnmarshalField (JObj [(''myFancyStruct'', JObj [(''A'', JNum 1)])]) (MemberName ''Calc'')
            (DoNotKnowHowToAssign calculator)) = DoNotKnowHowToAssign calculator"
proof -
  let ?fancy = "JObj [(''myFancyStruct'', JObj [(''A'', JNum 1)])]"
  let ?logk = "JObj [(''logK'', JObj [(''K'', JNum 3)])]"
  let ?H = "TStruct ''holder'' [StructField ''X'' [] ''x'' any]"
  let ?C = "TStruct ''calcHolder'' [StructField ''Calc'' [] [] calculator]"
  have ka: "Kind any = KInterface" and kc: "Kind calculator = KInterface"
    by (simp_all add: any_def calculator_def)
  have g1: "gjson_Map ?fancy = [(''myFancyStruct'', JObj [(''A'', JNum 1)])]"
    and g2: "gjson_Map ?logk = [(''logK'', JObj [(''K'', JNum 3)])]" by simp_all
  have n1: "NewByTypeID registry ''myFancyStruct'' =
      Return (Some (TPointer myFancyStruct, VPtr (Some (zero myFancyStruct))))"
    and n2: "NewByTypeID registry ''logK'' = Return (Some (TPointer logK, VPtr (Some (zero logK))))"
    by (simp_all add: registry_def)
  have u1: "unmarshal registry (JObj [(''A'', JNum 1)]) False
             (Some (TPointer myFancyStruct, VPtr (Some (zero myFancyStruct)))) = Return (VStruct [VInt 1])"
    and u2: "unmarshal registry (JObj [(''K'', JNum 3)]) False
             (Some (TPointer logK, VPtr (Some (zero logK)))) = Return (VStruct [VInt 3])"
    by (simp_all add: example_defs)
  have ph: "UnmarshalWithTypeIDs (JObj []) (Some (TPointer ?H, VPtr (Some (zero holder)))) registry =
              Return (VStruct [VIface None])"
    and pc: "UnmarshalWithTypeIDs (JObj []) (Some (TPointer ?C, VPtr (Some (zero calcHolder)))) registry =
              Return (VStruct [VIface None])"
    and pm: "UnmarshalWithTypeIDs (JObj []) (Some (TPointer (TMap TString any), VPtr (Some (VMap None)))) registry =
              Return (VMap None)"
    by (simp_all add: example_defs calcHolder_def)
  have ih: "map_of (indexMapOf [StructField ''X'' [] ''x'' any]) ''x'' = Some 0"
    and ic: "map_of (indexMapOf [StructField ''Calc'' [] [] calculator]) ''Calc'' = Some 0"
    by (simp_all add: indexMapOf_def jsonFieldName_def)
  have a1: "AssignableTo registry (elemType (TPointer myFancyStruct)) any"
    and a2: "\<not> AssignableTo registry (elemType (TPointer logK)) calculator"
    and a3: "AssignableTo registry (TPointer logK) calculator"
    and a4: "\<not> AssignableTo registry (elemType (TPointer myFancyStruct)) calculator"
    and a5: "\<not> AssignableTo registry (TPointer myFancyStruct) calculator"
    by (simp_all add: any_def calculator_def myFancyStruct_def logK_def registry_def)
  note A = interface_slot_assignment [OF ka _ g1 n1 u1, where out = "VIface None" and dst = None
      and b = JNull and w = "\<lambda>e. e" and v = "VPtr (Some (zero holder))" and pre = "[]"
      and n = "''holder''" and fs = "[StructField ''X'' [] ''x'' any]" and vs = "[VIface None]"
      and k = "''x''" and i = 0 and keyType = TString and m = "VMap None"]
  note A' = interface_slot_assignment [OF ka _ g1 n1 u1, where out = "VIface None" and dst = None
      and b = JNull and w = "\<lambda>e. e" and v = "VPtr (Some (VMap None))" and pre = "[]"
      and n = "''holder''" and fs = "[StructField ''X'' [] ''x'' any]" and vs = "[VIface None]"
      and k = "''B''" and i = 0 and keyType = TString and m = "VMap None"]
  note B = interface_slot_assignment [OF kc _ g2 n2 u2, where out = "VIface None" and dst = None
      and b = JNull and w = "\<lambda>e. e" and v = "VPtr (Some (zero calcHolder))" and pre = "[]"
      and n = "''calcHolder''" and fs = "[StructField ''Calc'' [] [] calculator]" and vs = "[VIface None]"
      and k = "''Calc''" and i = 0 and keyType = TString and m = "VMap None"]
  have pc': "unmarshal registry (JObj []) False (Some (TPointer ?C, VPtr (Some (VStruct [VIface None])))) =
              Return (VStruct [VIface None])"
    by (simp add: unmarshal_to_struct pointee_def)
  have "reaches registry (Some (TPointer ?C, VPtr (Some (VStruct [VIface None])))) False
          (JObj ([] @ (''Calc'', ?fancy) # []))
          ([VIface None] ! 0, Type ([StructField ''Calc'' [] [] calculator] ! 0), ?fancy)
          (\<lambda>e. UnableToUnmarshalField ?fancy (MemberName ''Calc'') ((\<lambda>e. e) e))"
    by (rule reachesFrom_reaches.field [OF _ pc' _ _ _ reachesFrom_reaches.here])
       (simp_all add: indexMapOf_def jsonFieldName_def)
  then have r: "reaches registry (Some (TPointer ?C, VPtr (Some (zero calcHolder)))) False
     (JObj [(''Calc'', ?fancy)]) (VIface None, calculator, ?fancy)
     (\<lambda>e. UnableToUnmarshalField ?fancy (MemberName ''Calc'') e)"
    by (simp add: calcHolder_def calculator_def)
  note C = interface_slot_assignment [OF kc _ g1 n1 u1, where out = "VIface None"
      and dst = "Some (TPointer ?C, VPtr (Some (zero calcHolder)))"
      and b = "JObj [(''Calc'', ?fancy)]"
      and w = "\<lambda>e. UnableToUnmarshalField ?fancy (MemberName ''Calc'') e" and v = "VPtr (Some (zero calcHolder))" and pre = "[]"
      and n = "''calcHolder''" and fs = "[StructField ''Calc'' [] [] calculator]" and vs = "[VIface None]"
      and k = "''Calc''" and i = 0 and keyType = TString and m = "VMap None"]
  have 1: "UnmarshalWithTypeIDs (JObj [(''x'', ?fancy)]) (Some (TPointer ?H, VPtr (Some (zero holder)))) registry =
     Return (VStruct [VIface (Some (myFancyStruct, VStruct [VInt 1]))])"
    using A ph ih a1 by (simp add: any_def)
  have 2: "UnmarshalWithTypeIDs (JObj [(''B'', ?fancy)])
       (Some (TPointer (TMap TString any), VPtr (Some (VMap None)))) registry =
     Return (VMap (Some [(VString ''B'', VIface (Some (myFancyStruct, VStruct [VInt 1])))]))"
    using A' pm a1 by simp
  have 3: "UnmarshalWithTypeIDs (JObj [(''Calc'', ?logk)]) (Some (TPointer ?C, VPtr (Some (zero calcHolder)))) registry =
     Return (VStruct [VIface (Some (TPointer logK, VPtr (Some (VStruct [VInt 3]))))])"
    using B pc ic a2 a3 by (simp add: calculator_def)
  have 4: "UnmarshalWithTypeIDs (JObj [(''Calc'', ?fancy)]) (Some (TPointer ?C, VPtr (Some (zero calcHolder)))) registry =
     Error (UnableToUnmarshalField ?fancy (MemberName ''Calc'') (DoNotKnowHowToAssign calculator))"
    using C pc ic a4 a5 by (simp add: calculator_def)
  have 5: "cause (UnableToUnmarshalField ?fancy (MemberName ''Calc'') (DoNotKnowHowToAssign calculator)) =
             DoNotKnowHowToAssign calculator"
    using C r a4 a5 by simp
  from 1 2 3 4 5 r show ?thesis by (simp add: holder_def calcHolder_def)
qed

section \<open>Map entries whose content is embedded directly\<close>

text \<open>
  C2.  The claim: in the object that \<open>MarshalWithTypeIDs\<close> writes for a map, an entry
  whose declared value type is not an interface (or whose interface value is absent) has
  its encoded content as its JSON value, unwrapped and byte for byte.  The code stores the
  content in \<open>marshaledFields\<close> as a \<open>[]byte\<close>, which \<open>json.Marshal\<close> writes as a JSON
  string holding the base64 text of the bytes: \<open>map[string]int{"a": 1}\<close> is written as
  \<open>{"a":"MQ=="}\<close>, not as \<open>{"a":1}\<close>.  The struct branch, which converts the same
  bytes to \<open>json.RawMessage\<close>, embeds them: a struct with the field \<open>A = 1\<close> is written as
  \<open>{"A":1}\<close>.
\<close>

theorem map_entry_content_is_base64_text:
  "MarshalWithTypeIDs (Some (TMap TString TInt, VMap (Some [(VString ''a'', VInt 1)]))) registry =
     Return (JObj [(''a'', JStr ''MQ=='')]) \<and>
   base64 (render (JNum 1)) = ''MQ=='' \<and>
   MarshalWithTypeIDs (Some (myFancyStruct, VStruct [VInt 1])) registry =
     Return (JObj [(''A'', JNum 1)])"
  by (simp add: example_defs)

section \<open>The absent value in an interface-declared slot\<close>

text \<open>
  C3.  The claim: an absent value in an interface-declared slot is written as \<open>null\<close> and
  read back as the absent value, without an error.  That is what happens in a struct
  field.  In a map entry the \<open>null\<close> goes through the \<open>[]byte\<close> path of C2:
  \<open>map[string]any{"k": nil}\<close> is written as \<open>{"k":"bnVsbA=="}\<close>, and decoding that
  document into a \<open>map[string]any\<close> returns the error "expected exactly one value, but
  got 0".
\<close>

theorem nil_interface_map_entry_is_not_null:
  "MarshalWithTypeIDs (Some (TMap TString any, VMap (Some [(VString ''k'', VIface None)]))) registry =
     Return (JObj [(''k'', JStr ''bnVsbA=='')]) \<and>
   base64 (render JNull) = ''bnVsbA=='' \<and>
   UnmarshalWithTypeIDs (JObj [(''k'', JStr ''bnVsbA=='')])
       (Some (TPointer (TMap TString any), VPtr (Some (VMap None)))) registry =
     Error (UnableToUnmarshalEntry (JStr ''bnVsbA=='') (MemberName ''k'') (ExpectedExactlyOneValue 0)) \<and>
   MarshalWithTypeIDs (Some (holder, VStruct [VIface None])) registry = Return (JObj [(''x'', JNull)]) \<and>
   UnmarshalWithTypeIDs (JObj [(''x'', JNull)])
       (Some (TPointer holder, VPtr (Some (VStruct [VIface (Some (TInt, VInt 5))])))) registry =
     Return (VStruct [VIface None])"
  by (simp add: example_defs)

section \<open>A dynamic value that the resolver does not know\<close>

text \<open>
  C9, as the claim states it, fails in two ways.  A struct whose interface-typed field is
  not exported is encoded without a call of the resolver: the field is skipped and the
  output is \<open>{}\<close>.  And when the resolver's error does come back from the slot of the
  container that was passed in, it is wrapped with the runtime type of the value only: the
  error names no field and no map key.
\<close>

theorem unregistered_type_counterexample:
  "MarshalWithTypeIDs (Some (holder, VStruct [VIface (Some (TString, VString ''s''))])) registry =
     Error (UnableToGetTypeID (Some TString) (Foreign ''type is not registered'')) \<and>
   positions (UnableToGetTypeID (Some TString) (Foreign ''type is not registered'')) = [] \<and>
   TypeIDOf registry (TString, VString ''s'') = Error (Foreign ''type is not registered'') \<and>
   MarshalWithTypeIDs (Some (hidden, VStruct [VIface (Some (TString, VString ''s''))])) registry =
     Return (JObj [])"
  by (simp add: example_defs)

text \<open>
  C9, amended.  Let the resolver return an error for the dynamic value \<open>d\<close>, and let the
  collaborators not panic.  A map whose declared value type is an interface and which
  holds \<open>d\<close> in an entry, and a struct which holds \<open>d\<close> in a field that is exported, not
  tagged \<open>-\<close> and declared with an interface type, make \<open>MarshalWithTypeIDs\<close> return an
  error and no output.  When the entries, or the fields, visited before that slot encode
  without error (the container cut before the slot encodes) and the content of \<open>d\<close>
  encodes, the error returned is "unable to get TypeID of %T" around the resolver's
  error: it carries the runtime type of \<open>d\<close>, and this wrapping adds no field name and no
  map key to what the resolver's error names.
\<close>

theorem unregistered_type_fails:
  assumes "quiet E" and "TypeIDOf E d = Error e"
  shows "(Kind vt = KInterface \<and> (k, x) \<in> set es \<and> ifaceDyn x = Some d \<longrightarrow>
            (\<exists>err. MarshalWithTypeIDs (Some (TMap kt vt, VMap (Some es))) E = Error err)) \<and>
         (i < length fs \<and> i < length vs \<and> PkgPath (fs ! i) = [] \<and> JsonTag (fs ! i) \<noteq> ''-'' \<and>
          Kind (Type (fs ! i)) = KInterface \<and> ifaceDyn (vs ! i) = Some d \<longrightarrow>
            (\<exists>err. MarshalWithTypeIDs (Some (TStruct n fs, VStruct vs)) E = Error err)) \<and>
         (Kind vt = KInterface \<and> Kind kt = KString \<and> marshal E (Some d) = Return b \<and>
          MarshalWithTypeIDs (Some (TMap kt vt, VMap (Some pre))) E = Return j \<longrightarrow>
            MarshalWithTypeIDs (Some (TMap kt vt, VMap (Some (pre @ (key, VIface (Some d)) # post)))) E =
              Error (UnableToGetTypeID (Some (fst d)) e)) \<and>
         (PkgPath fT = [] \<and> JsonTag fT \<noteq> ''-'' \<and> Kind (Type fT) = KInterface \<and>
          marshal E (Some d) = Return b \<and> length pre_v = length pre_f \<and>
          MarshalWithTypeIDs (Some (TStruct n' pre_f, VStruct pre_v)) E = Return j \<longrightarrow>
            MarshalWithTypeIDs (Some (TStruct n (pre_f @ fT # post_f), VStruct (pre_v @ VIface (Some d) # post_v))) E =
              Error (UnableToGetTypeID (Some (fst d)) e)) \<and>
         positions (UnableToGetTypeID (Some (fst d)) e) = positions e"
proof (intro conjI impI)
  assume a: "Kind vt = KInterface \<and> (k, x) \<in> set es \<and> ifaceDyn x = Some d"
  then have "failed (foldE (encodeEntry E kt vt) (MapRange (VMap (Some es))) [])"
    using assms(2) by (intro failed_foldE [where x = "(k, x)"] failed_encodeEntry) auto
  then have "failed (marshal E (Some (TMap kt vt, VMap (Some es))))"
    by (simp add: marshal_map failed_bind)
  then show "\<exists>err. MarshalWithTypeIDs (Some (TMap kt vt, VMap (Some es))) E = Error err"
    unfolding MarshalWithTypeIDs_def using marshal_not_Panic [OF assms(1)]
    by (intro failed_not_Panic) auto
next
  assume a: "i < length fs \<and> i < length vs \<and> PkgPath (fs ! i) = [] \<and> JsonTag (fs ! i) \<noteq> ''-'' \<and>
          Kind (Type (fs ! i)) = KInterface \<and> ifaceDyn (vs ! i) = Some d"
  then have "(i, fs ! i, vs ! i) \<in> set (zip [0..<length fs] (zip fs (structFields (VStruct vs))))"
    by (auto simp: in_set_zip intro!: exI [of _ i])
  then have "failed (foldE (encodeField E (TStruct n fs)) (zip [0..<length fs] (zip fs (structFields (VStruct vs)))) [])"
    using assms(2) a by (intro failed_foldE [where x = "(i, fs ! i, vs ! i)"] failed_encodeField) auto
  then have "failed (marshal E (Some (TStruct n fs, VStruct vs)))"
    by (simp add: marshal_struct failed_bind)
  then show "\<exists>err. MarshalWithTypeIDs (Some (TStruct n fs, VStruct vs)) E = Error err"
    unfolding MarshalWithTypeIDs_def using marshal_not_Panic [OF assms(1)]
    by (intro failed_not_Panic) auto
next
  assume a: "Kind vt = KInterface \<and> Kind kt = KString \<and> marshal E (Some d) = Return b \<and>
          MarshalWithTypeIDs (Some (TMap kt vt, VMap (Some pre))) E = Return j"
  then obtain acc where p: "foldE (encodeEntry E kt vt) pre [] = Return acc"
    by (auto simp: MarshalWithTypeIDs_def marshal_map bind_eq_Return)
  from a obtain ms where vt: "vt = TInterface ms" by (cases vt) auto
  obtain dt dv where d: "d = (dt, dv)" by (cases d)
  have s: "encodeEntry E kt vt acc (key, VIface (Some d)) = Error (UnableToGetTypeID (Some (fst d)) e)"
    using a assms(2) by (simp add: encodeEntry_def vt d marshal.simps(2))
  show "MarshalWithTypeIDs (Some (TMap kt vt, VMap (Some (pre @ (key, VIface (Some d)) # post)))) E =
              Error (UnableToGetTypeID (Some (fst d)) e)"
    by (simp add: MarshalWithTypeIDs_def marshal_map foldE_append p s)
next
  assume a: "PkgPath fT = [] \<and> JsonTag fT \<noteq> ''-'' \<and> Kind (Type fT) = KInterface \<and>
          marshal E (Some d) = Return b \<and> length pre_v = length pre_f \<and>
          MarshalWithTypeIDs (Some (TStruct n' pre_f, VStruct pre_v)) E = Return j"
  let ?t = "TStruct n (pre_f @ fT # post_f)"
  from a obtain acc where "foldE (encodeField E (TStruct n' pre_f)) (zip [0..<length pre_f] (zip pre_f pre_v)) [] = Return acc"
    by (auto simp: MarshalWithTypeIDs_def marshal_struct bind_eq_Return)
  then have p: "foldE (encodeField E ?t) (zip [0..<length pre_f] (zip pre_f pre_v)) [] = Return acc"
    by (simp add: encodeFields_Return_type [of E "TStruct n' pre_f" _ _ _ ?t])
  from a obtain ms where ft: "Type fT = TInterface ms" by (cases "Type fT") auto
  obtain dt dv where d: "d = (dt, dv)" by (cases d)
  have s: "encodeField E ?t acc (length pre_f, fT, VIface (Some d)) = Error (UnableToGetTypeID (Some (fst d)) e)"
    using a assms(2) by (simp add: encodeField_def ft d marshal.simps(2))
  from a have l: "length pre_v = length pre_f" by simp
  show "MarshalWithTypeIDs (Some (?t, VStruct (pre_v @ VIface (Some d) # post_v))) E =
              Error (UnableToGetTypeID (Some (fst d)) e)"
    unfolding MarshalWithTypeIDs_def marshal_struct structFields.simps zip_fields_split [OF l]
    by (simp add: foldE_append p s)
next
  show "positions (UnableToGetTypeID (Some (fst d)) e) = positions e" by simp
qed

theorem unregistered_type_fails_witness:
  "quiet registry \<and>
   TypeIDOf registry (TString, VString ''s'') = Error (Foreign ''type is not registered'') \<and>
   MarshalWithTypeIDs (Some (TMap TString any,
       VMap (Some [(VString ''a'', VIface (Some (myFancyStruct, VStruct [VInt 1])))]))) registry =
     Return (JObj [(''a'', JObj [(''myFancyStruct'', JObj [(''A'', JNum 1)])])]) \<and>
   MarshalWithTypeIDs (Some (TMap TString any,
       VMap (Some [(VString ''a'', VIface (Some (myFancyStruct, VStruct [VInt 1]))),
                   (VString ''b'', VIface (Some (TString, VString ''s''))),
                   (VString ''c'', VIface None)]))) registry =
     Error (UnableToGetTypeID (Some TString) (Foreign ''type is not registered'')) \<and>
   MarshalWithTypeIDs (Some (TStruct ''pairHolder'' [StructField ''N'' [] [] TInt], VStruct [VInt 4])) registry =
     Return (JObj [(''N'', JNum 4)]) \<and>
   MarshalWithTypeIDs (Some (pairHolder, VStruct [VInt 4, VIface (Some (TString, VString ''s''))])) registry =
     Error (UnableToGetTypeID (Some TString) (Foreign ''type is not registered'')) \<and>
   positions (UnableToGetTypeID (Some TString) (Foreign ''type is not registered'')) = []"
proof -
  let ?d = "(TString, VString ''s'')"
  let ?pre = "[(VString ''a'', VIface (Some (myFancyStruct, VStruct [VInt 1])))]"
  have q: "quiet registry" by (simp add: quiet_def registry_def)
  have t: "TypeIDOf registry ?d = Error (Foreign ''type is not registered'')"
    by (simp add: registry_def myFancyStruct_def)
  have m: "marshal registry (Some ?d) = Return (JStr ''s'')"
    by (simp add: marshal.simps)
  have pm: "MarshalWithTypeIDs (Some (TMap TString any, VMap (Some ?pre))) registry =
     Return (JObj [(''a'', JObj [(''myFancyStruct'', JObj [(''A'', JNum 1)])])])"
    by (simp add: example_defs)
  have ps: "MarshalWithTypeIDs (Some (TStruct ''pairHolder'' [StructField ''N'' [] [] TInt], VStruct [VInt 4])) registry =
     Return (JObj [(''N'', JNum 4)])"
    by (simp add: example_defs)
  note T = unregistered_type_fails [OF q t, where vt = any and kt = TString and b = "JStr ''s''"
      and k = "VString ''b''" and x = "VIface (Some ?d)"
      and es = "?pre @ (VString ''b'', VIface (Some ?d)) # [(VString ''c'', VIface None)]"
      and pre = ?pre and key = "VString ''b''" and post = "[(VString ''c'', VIface None)]"
      and j = "JObj [(''a'', JObj [(''myFancyStruct'', JObj [(''A'', JNum 1)])])]"]
  note S = unregistered_type_fails [OF q t, where vt = any and kt = TString and b = "JStr ''s''"
      and i = 1 and fs = "[StructField ''N'' [] [] TInt, StructField ''X'' [] ''x'' any]"
      and vs = "[VInt 4, VIface (Some ?d)]" and n = "''pairHolder''" and n' = "''pairHolder''"
      and fT = "StructField ''X'' [] ''x'' any" and pre_f = "[StructField ''N'' [] [] TInt]"
      and pre_v = "[VInt 4]" and post_f = "[]" and post_v = "[]"
      and j = "JObj [(''N'', JNum 4)]"]
  have 1: "MarshalWithTypeIDs (Some (TMap TString any,
       VMap (Some (?pre @ (VString ''b'', VIface (Some ?d)) # [(VString ''c'', VIface None)])))) registry =
     Error (UnableToGetTypeID (Some TString) (Foreign ''type is not registered''))"
    using T m pm by (simp add: any_def)
  have 2: "MarshalWithTypeIDs (Some (TStruct ''pairHolder'' ([StructField ''N'' [] [] TInt] @ StructField ''X'' [] ''x'' any # []),
              VStruct ([VInt 4] @ VIface (Some ?d) # []))) registry =
     Error (UnableToGetTypeID (Some TString) (Foreign ''type is not registered''))"
    using S m ps by (simp add: any_def)
  from q t pm ps 1 2 show ?thesis by (simp add: pairHolder_def)
qed

section \<open>Decoding into a map replaces its entries\<close>

text \<open>
  C6.  When the destination is a map, \<open>unmarshal\<close> first deletes every entry the map holds,
  so the result of the call is the same as for an empty map; and after a successful decode
  of a JSON object the keys of the map are exactly the member names of the object.
\<close>

theorem map_decode_replaces_entries:
  "deleteAll (VMap (Some old)) = Return (VMap (Some [])) \<and>
   UnmarshalWithTypeIDs b (Some (TPointer (TMap kt vt), VPtr (Some (VMap (Some old))))) E =
     UnmarshalWithTypeIDs b (Some (TPointer (TMap kt vt), VPtr (Some (VMap (Some []))))) E \<and>
   (UnmarshalWithTypeIDs (JObj kvs) (Some (TPointer (TMap kt vt), VPtr (Some m))) E = Return r \<longrightarrow>
      fst ` set (MapRange r) = VString ` fst ` set kvs)"
proof (intro conjI impI)
  show "deleteAll (VMap (Some old)) = Return (VMap (Some []))" by simp
  show "UnmarshalWithTypeIDs b (Some (TPointer (TMap kt vt), VPtr (Some (VMap (Some old))))) E =
     UnmarshalWithTypeIDs b (Some (TPointer (TMap kt vt), VPtr (Some (VMap (Some []))))) E"
    by (simp add: UnmarshalWithTypeIDs_def unmarshal_to_map pointee_def)
  assume "UnmarshalWithTypeIDs (JObj kvs) (Some (TPointer (TMap kt vt), VPtr (Some m))) E = Return r"
  then obtain m' where d: "deleteAll m = Return m'"
    and f: "foldE (decodeEntry E kt vt) (gjson_ForEach (JObj kvs)) m' = Return r"
    by (auto simp: UnmarshalWithTypeIDs_def unmarshal_to_map pointee_def bind_eq_Return)
  from d MapRange_deleteAll [of m] have "MapRange m' = []" by auto
  with keys_decodeEntries [OF f] show "fst ` set (MapRange r) = VString ` fst ` set kvs"
    by (simp add: image_image case_prod_unfold)
qed


theorem map_decode_replaces_entries_witness:
  "UnmarshalWithTypeIDs (JObj [(''k2'', JNum 2)])
     (Some (TPointer (TMap TString TInt), VPtr (Some (VMap (Some [(VString ''k1'', VInt 1)]))))) registry =
     Return (VMap (Some [(VString ''k2'', VInt 2)])) \<and>
   fst ` set (MapRange (VMap (Some [(VString ''k2'', VInt 2)]))) = VString ` fst ` set [(''k2'', JNum 2)]"
proof -
  have "UnmarshalWithTypeIDs (JObj [(''k2'', JNum 2)])
     (Some (TPointer (TMap TString TInt), VPtr (Some (VMap (Some [(VString ''k1'', VInt 1)]))))) registry =
     Return (VMap (Some [(VString ''k2'', VInt 2)]))"
    by (simp add: example_defs)
  then show ?thesis
    using map_decode_replaces_entries [of "[(VString ''k1'', VInt 1)]" "JObj [(''k2'', JNum 2)]" TString TInt registry
        "[(''k2'', JNum 2)]" "VMap (Some [(VString ''k1'', VInt 1)])" "VMap (Some [(VString ''k2'', VInt 2)])"]
    by simp
qed


section \<open>The json tag of a field\<close>




end
